theory Spec2Isabelle
  imports Main "HOL-Library.AList"
begin

section \<open>Guest accounts of the Open Collective API\<close>

text \<open>
  A shallow embedding of \<^verbatim>\<open>server/lib/guest-accounts.ts\<close> and of
  \<^verbatim>\<open>server/graphql/v2/mutation/GuestMutations.ts\<close>. Every \<^verbatim>\<open>async\<close> function
  becomes a function from the state of the outside world to a result (an error or a
  value) and the next state. The world holds the database tables, the counters of the
  rate limiter, the mails handed to the mailer and a log of every call that left the
  process, in the order in which the calls were made.
\<close>

subsection \<open>Strings\<close>

text \<open>
  A JavaScript string is modelled as a \<^typ>\<open>string\<close> whose characters are the code units
  below 256 (ASCII and Latin-1). \<^verbatim>\<open>String.prototype.trim\<close> removes white space and line
  terminators at both ends; in this range they are the code units 9 to 13, 32 and 160.
  \<^verbatim>\<open>toLowerCase\<close> moves A-Z and the upper-case Latin-1 letters (192 to 222 without 215)
  up by 32.
\<close>

definition isWhiteSpace :: "char \<Rightarrow> bool" where
  "isWhiteSpace c = (of_char c \<in> set [9, 10, 11, 12, 13, 32, 160 :: nat])"

definition trim :: "string \<Rightarrow> string" where
  "trim s = rev (dropWhile isWhiteSpace (rev (dropWhile isWhiteSpace s)))"

definition lowerChar :: "char \<Rightarrow> char" where
  "lowerChar c =
     (let n = (of_char c :: nat)
      in if (65 \<le> n \<and> n \<le> 90) \<or> (192 \<le> n \<and> n \<le> 222 \<and> n \<noteq> 215)
         then char_of (n + 32) else c)"

definition toLowerCase :: "string \<Rightarrow> string" where
  "toLowerCase s = map lowerChar s"

text \<open>A value of type \<^verbatim>\<open>string | null | undefined\<close> is truthy when it is a non-empty string.\<close>

definition truthy :: "string option \<Rightarrow> bool" where
  "truthy v = (case v of None \<Rightarrow> False | Some s \<Rightarrow> s \<noteq> [])"

subsection \<open>Rows and tables\<close>

text \<open>
  Modelled from the spec: the Sequelize model declarations (\<^verbatim>\<open>server/models\<close>). The
  rows carry the attributes that the code reads and writes and that section 3 of the
  specification lists; accounts and guest tokens are deleted softly (a deletion
  timestamp), and queries see only rows that are not deleted. A table is the list of its
  rows in the order of insertion, and \<^verbatim>\<open>findOne\<close> returns the first row that matches.
  Identifiers are handed out by the table: the next one is above every identifier in use.
\<close>

datatype json = JNull | JBool bool | JNum int | JStr string

record Collective =
  c_id :: nat
  c_type :: string
  c_slug :: string
  c_name :: string
  c_data :: "(string \<times> json) list"
  c_address :: "string option"
  c_countryISO :: "string option"
  c_CreatedByUserId :: "nat option"
  c_deletedAt :: "nat option"

record User =
  u_id :: nat
  u_email :: string
  u_confirmedAt :: "nat option"
  u_CollectiveId :: nat
  u_emailConfirmationToken :: "string option"

record GuestToken =
  gt_id :: nat
  gt_value :: string
  gt_CollectiveId :: nat
  gt_deletedAt :: "nat option"

record Transaction =
  t_id :: nat
  t_FromCollectiveId :: nat
  t_CollectiveId :: nat

record Mail =
  m_template :: string
  m_recipient :: string
  m_email :: string
  m_verifyAccountLink :: string

text \<open>One entry of the log for every call to the database, the rate limiter or the mailer.\<close>

datatype op =
    GuestToken_findOne string
  | GuestToken_findAll "string list" nat
  | GuestToken_create string
  | GuestToken_destroy "nat list"
  | User_findOne_email string
  | User_findOne_CollectiveId nat
  | User_findOne_emailConfirmationToken string
  | User_create string
  | User_update nat
  | User_getCollective nat
  | Collective_create string
  | Collective_update nat
  | Collective_generateSlug "string list"
  | MergeCollectives nat nat
  | RateLimit_registerCall string
  | Email_send string

record world =
  Collectives :: "Collective list"
  Users :: "User list"
  GuestTokens :: "GuestToken list"
  Transactions :: "Transaction list"
  rateLimits :: "(string \<times> nat \<times> nat) list"
  outbox :: "Mail list"
  oplog :: "op list"

datatype error =
    Error string
  | InvalidToken string
  | BadRequest string
  | NotFound string
  | RateLimitExceeded string
  | TypeError string

type_synonym 'a io = "world \<Rightarrow> (error + 'a) \<times> world"

definition ret :: "'a \<Rightarrow> 'a io" where
  "ret x = (\<lambda>w. (Inr x, w))"

definition throw :: "error \<Rightarrow> 'a io" where
  "throw e = (\<lambda>w. (Inl e, w))"

text \<open>\<^verbatim>\<open>const x = await m; k(x)\<close>: a rejected promise ends the function.\<close>

definition await :: "'a io \<Rightarrow> ('a \<Rightarrow> 'b io) \<Rightarrow> 'b io" where
  "await m k = (\<lambda>w. case m w of (Inl e, w') \<Rightarrow> (Inl e, w') | (Inr x, w') \<Rightarrow> k x w')"

definition logged :: "op \<Rightarrow> world \<Rightarrow> world" where
  "logged ev w = w\<lparr>oplog := oplog w @ [ev]\<rparr>"

text \<open>
  \<^verbatim>\<open>sequelize.transaction(async transaction => ...)\<close> commits when the callback resolves
  and rolls the tables back when it rejects. The log is not part of the database.
\<close>

definition transaction :: "'a io \<Rightarrow> 'a io" where
  "transaction body =
     (\<lambda>w. case body w of
        (Inl e, w') \<Rightarrow>
          (Inl e, w'\<lparr>Collectives := Collectives w, Users := Users w,
                      GuestTokens := GuestTokens w, Transactions := Transactions w\<rparr>)
      | (Inr x, w') \<Rightarrow> (Inr x, w'))"

definition nextId :: "nat list \<Rightarrow> nat" where
  "nextId ids = Suc (fold max ids 0)"

definition liveCollective :: "world \<Rightarrow> nat \<Rightarrow> Collective option" where
  "liveCollective w i = find (\<lambda>c. c_id c = i \<and> c_deletedAt c = None) (Collectives w)"

subsection \<open>Queries of the models\<close>

text \<open>
  \<^verbatim>\<open>models.GuestToken.findOne({ where: { value }, include: [{ association: 'collective',
  required: true }] })\<close>: the first live token with this value whose account is live.
\<close>

definition models_GuestToken_findOne :: "string \<Rightarrow> (GuestToken \<times> Collective) option io" where
  "models_GuestToken_findOne v =
     (\<lambda>w. (Inr (case find (\<lambda>t. gt_value t = v \<and> gt_deletedAt t = None
                                  \<and> liveCollective w (gt_CollectiveId t) \<noteq> None) (GuestTokens w) of
                  None \<Rightarrow> None
                | Some t \<Rightarrow> map_option (Pair t) (liveCollective w (gt_CollectiveId t))),
            logged (GuestToken_findOne v) w))"

definition models_GuestToken_create :: "nat \<Rightarrow> string \<Rightarrow> GuestToken io" where
  "models_GuestToken_create cid v =
     (\<lambda>w. let t = \<lparr>gt_id = nextId (map gt_id (GuestTokens w)), gt_value = v,
                    gt_CollectiveId = cid, gt_deletedAt = None\<rparr>
           in (Inr t, logged (GuestToken_create v) (w\<lparr>GuestTokens := GuestTokens w @ [t]\<rparr>)))"

definition models_User_findOne :: "op \<Rightarrow> (User \<Rightarrow> bool) \<Rightarrow> User option io" where
  "models_User_findOne ev P = (\<lambda>w. (Inr (find P (Users w)), logged ev w))"

definition models_User_create :: "string \<Rightarrow> nat \<Rightarrow> string \<Rightarrow> User io" where
  "models_User_create email cid emailConfirmationToken =
     (\<lambda>w. let u = \<lparr>u_id = nextId (map u_id (Users w)), u_email = email, u_confirmedAt = None,
                    u_CollectiveId = cid,
                    u_emailConfirmationToken = Some emailConfirmationToken\<rparr>
           in (Inr u, logged (User_create email) (w\<lparr>Users := Users w @ [u]\<rparr>)))"

definition models_Collective_create ::
  "string \<Rightarrow> string \<Rightarrow> string \<Rightarrow> (string \<times> json) list \<Rightarrow> string option \<Rightarrow> string option
     \<Rightarrow> Collective io" where
  "models_Collective_create type slug name data address countryISO =
     (\<lambda>w. let c = \<lparr>c_id = nextId (map c_id (Collectives w)), c_type = type, c_slug = slug,
                    c_name = name, c_data = data, c_address = address,
                    c_countryISO = countryISO, c_CreatedByUserId = None, c_deletedAt = None\<rparr>
           in (Inr c, logged (Collective_create slug) (w\<lparr>Collectives := Collectives w @ [c]\<rparr>)))"

text \<open>
  \<^verbatim>\<open>instance.update(fields)\<close> sets the fields on the instance and on the row with the
  instance's identifier, and resolves to the instance.
\<close>

definition instance_update_Collective :: "Collective \<Rightarrow> (Collective \<Rightarrow> Collective) \<Rightarrow> Collective io" where
  "instance_update_Collective c f =
     (\<lambda>w. (Inr (f c),
            logged (Collective_update (c_id c))
              (w\<lparr>Collectives := map (\<lambda>r. if c_id r = c_id c then f r else r) (Collectives w)\<rparr>)))"

definition instance_update_User :: "User \<Rightarrow> (User \<Rightarrow> User) \<Rightarrow> User io" where
  "instance_update_User u f =
     (\<lambda>w. (Inr (f u),
            logged (User_update (u_id u))
              (w\<lparr>Users := map (\<lambda>r. if u_id r = u_id u then f r else r) (Users w)\<rparr>)))"

subsection \<open>\<^verbatim>\<open>guest-accounts.ts\<close>: resolving a guest profile\<close>

definition INVALID_TOKEN_MSG :: string where
  "INVALID_TOKEN_MSG = ''Your guest token is invalid. If you already have an account, please sign in.''"

definition DEFAULT_GUEST_NAME :: string where
  "DEFAULT_GUEST_NAME = ''Guest''"

definition ALREADY_EXISTS_MSG :: string where
  "ALREADY_EXISTS_MSG = ''An account already exists for this email, please sign in.''"

text \<open>
  Modelled from the spec: \<^verbatim>\<open>COLLECTIVE_TYPE.USER\<close> of \<^verbatim>\<open>server/constants/collectives\<close>,
  the "person" variant of the account types.
\<close>

definition COLLECTIVE_TYPE_USER :: string where
  "COLLECTIVE_TYPE_USER = ''USER''"

record GuestProfileDetails =
  user :: User
  collective :: Collective
  token :: GuestToken

record Location =
  country :: "string option"
  address :: "string option"

definition loadGuestToken :: "string \<Rightarrow> GuestProfileDetails io" where
  "loadGuestToken guestToken =
     await (models_GuestToken_findOne guestToken) (\<lambda>found.
       case found of
         None \<Rightarrow> throw (Error INVALID_TOKEN_MSG)
       | Some (tok, coll) \<Rightarrow>
           await (models_User_findOne (User_findOne_CollectiveId (c_id coll))
                    (\<lambda>u. u_CollectiveId u = c_id coll)) (\<lambda>usr.
             case usr of
               None \<Rightarrow> throw (Error INVALID_TOKEN_MSG)
             | Some u \<Rightarrow> ret \<lparr>user = u, collective = coll, token = tok\<rparr>))"

text \<open>
  The three random values that \<^verbatim>\<open>createGuestProfile\<close> draws: two times
  \<^verbatim>\<open>crypto.randomBytes(48).toString('hex')\<close> and one \<^verbatim>\<open>uuid()\<close>. The function
  creates the account first, inside the transaction, and looks the user up by the email
  as it was given (\<^verbatim>\<open>where: { email }\<close>, neither trimmed nor in lower case); a
  confirmed user with this email makes the callback throw, and the transaction rolls back.
\<close>

record Random =
  rnd_emailConfirmationToken :: string
  rnd_guestToken :: string
  rnd_uuid :: string

definition createGuestProfile ::
  "Random \<Rightarrow> string option \<Rightarrow> string option \<Rightarrow> Location option \<Rightarrow> GuestProfileDetails io" where
  "createGuestProfile rnd email name location =
     (case email of
        None \<Rightarrow> throw (Error ''An email is required to create a guest profile'')
      | Some e \<Rightarrow>
          if e = [] then throw (Error ''An email is required to create a guest profile'')
          else transaction
            (await (models_Collective_create COLLECTIVE_TYPE_USER
                      (''guest-'' @ takeWhile (\<lambda>c. c \<noteq> CHR ''-'') (rnd_uuid rnd))
                      (case name of None \<Rightarrow> DEFAULT_GUEST_NAME | Some n \<Rightarrow> n)
                      [(''isGuest'', JBool True)]
                      (case location of None \<Rightarrow> None | Some l \<Rightarrow> address l)
                      (case location of None \<Rightarrow> None | Some l \<Rightarrow> country l)) (\<lambda>coll.
             await (models_User_findOne (User_findOne_email e) (\<lambda>u. u_email u = e)) (\<lambda>found.
             await (case found of
                      None \<Rightarrow> models_User_create e (c_id coll) (rnd_emailConfirmationToken rnd)
                    | Some u \<Rightarrow>
                        if u_confirmedAt u \<noteq> None then throw (Error ALREADY_EXISTS_MSG)
                        else ret u) (\<lambda>usr.
             await (instance_update_Collective coll
                      (\<lambda>c. c\<lparr>c_CreatedByUserId := Some (u_id usr)\<rparr>)) (\<lambda>coll.
             await (models_GuestToken_create (c_id coll) (rnd_guestToken rnd)) (\<lambda>tok.
             ret \<lparr>user = usr, collective = coll, token = tok\<rparr>)))))))"

text \<open>The object \<^verbatim>\<open>fieldsToUpdate\<close> of \<^verbatim>\<open>updateCollective\<close>: a field is present or not.\<close>

record FieldsToUpdate =
  f_name :: "string option"
  f_countryISO :: "string option"
  f_address :: "string option"

definition setFields :: "FieldsToUpdate \<Rightarrow> Collective \<Rightarrow> Collective" where
  "setFields fs c =
     c\<lparr>c_name := (case f_name fs of None \<Rightarrow> c_name c | Some n \<Rightarrow> n),
       c_countryISO := (case f_countryISO fs of None \<Rightarrow> c_countryISO c | Some v \<Rightarrow> Some v),
       c_address := (case f_address fs of None \<Rightarrow> c_address c | Some v \<Rightarrow> Some v)\<rparr>"

definition isEmpty :: "FieldsToUpdate \<Rightarrow> bool" where
  "isEmpty fs = (f_name fs = None \<and> f_countryISO fs = None \<and> f_address fs = None)"

definition fieldsToUpdate :: "Collective \<Rightarrow> string option \<Rightarrow> Location option \<Rightarrow> FieldsToUpdate" where
  "fieldsToUpdate c name location =
     \<lparr>f_name = (if truthy name \<and> Some (c_name c) \<noteq> name then name else None),
      f_countryISO =
        (case location of
           None \<Rightarrow> None
         | Some l \<Rightarrow> if truthy (country l) \<and> country l \<noteq> c_countryISO c then country l else None),
      f_address =
        (case location of
           None \<Rightarrow> None
         | Some l \<Rightarrow> if truthy (address l) \<and> address l \<noteq> c_address c then address l else None)\<rparr>"

definition updateCollective :: "Collective \<Rightarrow> string option \<Rightarrow> Location option \<Rightarrow> Collective io" where
  "updateCollective c name location =
     (let fs = fieldsToUpdate c name location
      in if isEmpty fs then ret c else instance_update_Collective c (setFields fs))"

definition getGuestProfileFromToken ::
  "Random \<Rightarrow> string \<Rightarrow> string option \<Rightarrow> string option \<Rightarrow> Location option
     \<Rightarrow> GuestProfileDetails io" where
  "getGuestProfileFromToken rnd tokenValue email name location =
     await (loadGuestToken tokenValue) (\<lambda>p.
       if u_confirmedAt (user p) \<noteq> None then throw (Error ALREADY_EXISTS_MSG)
       else if truthy email \<and> Some (u_email (user p)) \<noteq> map_option trim email
         then createGuestProfile rnd email name location
       else await (updateCollective (collective p) name location) (\<lambda>c.
              ret \<lparr>user = user p, collective = c, token = token p\<rparr>))"

definition getOrCreateGuestProfile ::
  "Random \<Rightarrow> string option \<Rightarrow> string option \<Rightarrow> string option \<Rightarrow> Location option
     \<Rightarrow> GuestProfileDetails io" where
  "getOrCreateGuestProfile rnd email tok name location =
     (case tok of
        None \<Rightarrow> createGuestProfile rnd email name location
      | Some t \<Rightarrow>
          if t = [] then createGuestProfile rnd email name location
          else getGuestProfileFromToken rnd t email name location)"

subsection \<open>\<^verbatim>\<open>guest-accounts.ts\<close>: confirming a guest account\<close>

definition models_User_getCollective :: "User \<Rightarrow> Collective option io" where
  "models_User_getCollective u =
     (\<lambda>w. (Inr (liveCollective w (u_CollectiveId u)), logged (User_getCollective (u_id u)) w))"

text \<open>
  Modelled from the spec: \<^verbatim>\<open>models.Collective.generateSlug\<close> belongs to the model
  declarations. It reads the accounts to avoid a slug in use; the function that picks the
  slug is a parameter.
\<close>

definition models_Collective_generateSlug ::
  "(string list \<Rightarrow> Collective list \<Rightarrow> string) \<Rightarrow> string list \<Rightarrow> string io" where
  "models_Collective_generateSlug gen names =
     (\<lambda>w. (Inr (gen names (Collectives w)), logged (Collective_generateSlug names) w))"

text \<open>
  \<^verbatim>\<open>models.GuestToken.findAll\<close> with the values in the list, joined with the live account
  that owns the token, where the account is not the confirmed one and is flagged as guest.
\<close>

definition models_GuestToken_findAll ::
  "string list \<Rightarrow> nat \<Rightarrow> (GuestToken \<times> Collective) list io" where
  "models_GuestToken_findAll vals notId =
     (\<lambda>w. (Inr (concat (map (\<lambda>t.
                    if gt_value t \<in> set vals \<and> gt_deletedAt t = None
                    then (case liveCollective w (gt_CollectiveId t) of
                            None \<Rightarrow> []
                          | Some c \<Rightarrow>
                              if c_id c \<noteq> notId \<and> map_of (c_data c) ''isGuest'' = Some (JBool True)
                              then [(t, c)] else [])
                    else []) (GuestTokens w))),
            logged (GuestToken_findAll vals notId) w))"

definition models_GuestToken_destroy :: "nat \<Rightarrow> nat list \<Rightarrow> unit io" where
  "models_GuestToken_destroy now ids =
     (\<lambda>w. (Inr (),
            logged (GuestToken_destroy ids)
              (w\<lparr>GuestTokens :=
                   map (\<lambda>t. if gt_CollectiveId t \<in> set ids \<and> gt_deletedAt t = None
                            then t\<lparr>gt_deletedAt := Some now\<rparr> else t) (GuestTokens w)\<rparr>)))"

text \<open>
  Modelled from the spec: \<^verbatim>\<open>mergeCollectives\<close> of \<^verbatim>\<open>server/lib/collectivelib\<close>, the
  Account Merge Service: "given a source and target account, migrates all of the source's
  financial and relational records to the target and soft-deletes the source". The
  financial records are the transactions, which name an account in
  \<^verbatim>\<open>FromCollectiveId\<close> and in \<^verbatim>\<open>CollectiveId\<close>.
\<close>

definition mergeCollectives :: "nat \<Rightarrow> Collective \<Rightarrow> Collective \<Rightarrow> unit io" where
  "mergeCollectives now from into =
     (\<lambda>w. (Inr (),
            logged (MergeCollectives (c_id from) (c_id into))
              (w\<lparr>Transactions :=
                   map (\<lambda>t. t\<lparr>t_FromCollectiveId :=
                                 (if t_FromCollectiveId t = c_id from then c_id into
                                  else t_FromCollectiveId t),
                               t_CollectiveId :=
                                 (if t_CollectiveId t = c_id from then c_id into
                                  else t_CollectiveId t)\<rparr>) (Transactions w),
                 Collectives :=
                   map (\<lambda>c. if c_id c = c_id from \<and> c_deletedAt c = None
                            then c\<lparr>c_deletedAt := Some now\<rparr> else c) (Collectives w)\<rparr>)))"

text \<open>
  \<^verbatim>\<open>Promise.all(guestTokens.map(token => mergeCollectives(token.collective, userCollective)))\<close>:
  the merges are started in the order of the list.
\<close>

fun mergeAll :: "nat \<Rightarrow> (GuestToken \<times> Collective) list \<Rightarrow> Collective \<Rightarrow> unit io" where
  "mergeAll now [] into = ret ()"
| "mergeAll now (tc # rest) into =
     await (mergeCollectives now (snd tc) into) (\<lambda>_. mergeAll now rest into)"

text \<open>
  The block "Link the other guest profiles" of \<^verbatim>\<open>confirmGuestAccount\<close>; its value is
  the list \<^verbatim>\<open>allCollectiveIds\<close>. A list that is \<^verbatim>\<open>null\<close>, \<^verbatim>\<open>undefined\<close> or empty
  leaves the identifier of the confirmed account alone in it.
\<close>

definition linkGuestProfiles ::
  "nat \<Rightarrow> string list option \<Rightarrow> Collective \<Rightarrow> nat list io" where
  "linkGuestProfiles now guestTokensValues userCollective =
     (case guestTokensValues of
        None \<Rightarrow> ret [c_id userCollective]
      | Some vals \<Rightarrow>
          if vals = [] then ret [c_id userCollective]
          else await (models_GuestToken_findAll vals (c_id userCollective)) (\<lambda>found.
                 if found = [] then ret [c_id userCollective]
                 else await (mergeAll now found userCollective) (\<lambda>_.
                        ret (c_id userCollective # map (\<lambda>tc. gt_CollectiveId (fst tc)) found))))"

text \<open>
  \<^verbatim>\<open>confirmGuestAccount\<close>. The metadata \<^verbatim>\<open>{ ...userCollective.data, isGuest: false }\<close>
  keeps every key of the object and sets \<^verbatim>\<open>isGuest\<close>, at its place when the key is
  there and at the end otherwise. The time \<open>now\<close> is the reading of the clock.
\<close>

definition confirmGuestAccount ::
  "(string list \<Rightarrow> Collective list \<Rightarrow> string) \<Rightarrow> nat \<Rightarrow> string \<Rightarrow> string option
     \<Rightarrow> string list option \<Rightarrow> Collective io" where
  "confirmGuestAccount gen now emailConfirmationToken name guestTokensValues =
     await (models_User_findOne (User_findOne_emailConfirmationToken emailConfirmationToken)
              (\<lambda>u. u_emailConfirmationToken u = Some emailConfirmationToken)) (\<lambda>found.
       case found of
         None \<Rightarrow> throw (InvalidToken ''Invalid email confirmation token'')
       | Some usr \<Rightarrow>
           if u_confirmedAt usr \<noteq> None
           then throw (BadRequest ''This account has already been verified'')
           else
             await (instance_update_User usr
                      (\<lambda>u. u\<lparr>u_emailConfirmationToken := None, u_confirmedAt := Some now\<rparr>)) (\<lambda>usr.
             await (models_User_getCollective usr) (\<lambda>got.
               case got of
                 None \<Rightarrow> throw (TypeError ''Cannot read property 'name' of null'')
               | Some userCollective \<Rightarrow>
                   let newName =
                     (case name of
                        Some n \<Rightarrow> n
                      | None \<Rightarrow>
                          if c_name userCollective \<noteq> DEFAULT_GUEST_NAME then c_name userCollective
                          else ''Incognito'')
                   in
                     await (models_Collective_generateSlug gen [newName]) (\<lambda>slug.
                     await (instance_update_Collective userCollective
                              (\<lambda>c. c\<lparr>c_name := newName, c_slug := slug,
                                     c_data := AList.update ''isGuest'' (JBool False)
                                                 (c_data userCollective)\<rparr>)) (\<lambda>userCollective.
                     await (linkGuestProfiles now guestTokensValues userCollective)
                       (\<lambda>allCollectiveIds.
                     await (models_GuestToken_destroy now allCollectiveIds) (\<lambda>_.
                     ret userCollective)))))))"

subsection \<open>\<^verbatim>\<open>GuestMutations.ts\<close>: the two mutations\<close>

text \<open>
  The resolver of \<^verbatim>\<open>confirmGuestAccount\<close>. It checks the length of \<^verbatim>\<open>args.guestTokens\<close>
  and calls the library function with the confirmation token and the name, and with
  nothing else, so that the third parameter of the library function is \<^verbatim>\<open>undefined\<close>.
\<close>

definition confirmGuestAccount_resolve ::
  "(string list \<Rightarrow> Collective list \<Rightarrow> string) \<Rightarrow> nat \<Rightarrow> string \<Rightarrow> string list option
     \<Rightarrow> string option \<Rightarrow> Collective io" where
  "confirmGuestAccount_resolve gen now emailConfirmationToken guestTokensArg name =
     (if (case guestTokensArg of None \<Rightarrow> False | Some g \<Rightarrow> 30 < length g)
      then throw (Error ''Cannot link more than 30 profiles at the same time'')
      else confirmGuestAccount gen now emailConfirmationToken name None)"

text \<open>
  Modelled from the spec: the class \<^verbatim>\<open>RateLimit\<close> of \<^verbatim>\<open>server/lib/rate-limit\<close>, "a fixed
  quota per rolling 60-second window, backed by a shared counter keyed by a per-scope
  string"; the windows are "wall-clock, fixed-size (60s), not sliding". An entry of the
  counter store is the start of the window and the calls counted in it.
\<close>

definition currentWindow :: "nat \<Rightarrow> nat \<Rightarrow> string \<Rightarrow> (string \<times> nat \<times> nat) list \<Rightarrow> nat \<times> nat" where
  "currentWindow now expiry key counters =
     (case map_of counters key of
        None \<Rightarrow> (now, 0)
      | Some (start, count) \<Rightarrow> if now < start + expiry then (start, count) else (now, 0))"

definition registerCall :: "string \<Rightarrow> nat \<Rightarrow> nat \<Rightarrow> nat \<Rightarrow> bool io" where
  "registerCall key limit expiry now =
     (\<lambda>w. let (start, count) = currentWindow now expiry key (rateLimits w)
           in if limit \<le> count then (Inr False, logged (RateLimit_registerCall key) w)
              else (Inr True,
                    logged (RateLimit_registerCall key)
                      (w\<lparr>rateLimits := AList.update key (start, Suc count) (rateLimits w)\<rparr>)))"

text \<open>
  Modelled from the spec: \<^verbatim>\<open>emailLib.send\<close> of \<^verbatim>\<open>server/lib/email\<close>, the Notifier, which
  "sends templated email". The mail is put into the outbox; a failure of the delivery
  is not modelled.
\<close>

definition emailLib_send :: "Mail \<Rightarrow> unit io" where
  "emailLib_send m =
     (\<lambda>w. (Inr (), logged (Email_send (m_recipient m)) (w\<lparr>outbox := outbox w @ [m]\<rparr>)))"

text \<open>
  \<^verbatim>\<open>Buffer.from(email).toString('base64')\<close>: the UTF-8 bytes of the string, three bytes to
  four characters of the alphabet, padded with \<^verbatim>\<open>=\<close>.
\<close>

definition utf8 :: "string \<Rightarrow> nat list" where
  "utf8 s = concat (map (\<lambda>c. let n = (of_char c :: nat)
                             in if n < 128 then [n] else [192 + n div 64, 128 + n mod 64]) s)"

definition base64Char :: "nat \<Rightarrow> char" where
  "base64Char n =
     ''ABCDEFGHIJKLMNOPQRSTUVWXYZabcdefghijklmnopqrstuvwxyz0123456789+/'' ! (n mod 64)"

fun base64 :: "nat list \<Rightarrow> string" where
  "base64 [] = []"
| "base64 [a] = [base64Char (a div 4), base64Char ((a mod 4) * 16), CHR ''='', CHR ''='']"
| "base64 [a, b] =
     [base64Char (a div 4), base64Char ((a mod 4) * 16 + b div 16),
      base64Char ((b mod 16) * 4), CHR ''='']"
| "base64 (a # b # c # rest) =
     [base64Char (a div 4), base64Char ((a mod 4) * 16 + b div 16),
      base64Char ((b mod 16) * 4 + c div 64), base64Char (c mod 64)] @ base64 rest"

record Request =
  remoteUser :: "nat option"
  ip :: string

text \<open>The values that the resolver reads from \<^verbatim>\<open>config\<close>.\<close>

record Config =
  confirmGuestEmailPerMinutePerIp :: nat
  confirmGuestEmailPerMinute :: nat
  website :: string

definition ipKey :: "Request \<Rightarrow> string" where
  "ipKey req = ''confirm_guest_account_ip_'' @ ip req @ ''}''"

definition emailKey :: "string \<Rightarrow> string" where
  "emailKey email = ''confirm_guest_account_email_'' @ base64 (utf8 email)"

definition IP_LIMIT_MSG :: string where
  "IP_LIMIT_MSG = ''An email has already been sent recently. Please try again in a few minutes.''"

definition EMAIL_LIMIT_MSG :: string where
  "EMAIL_LIMIT_MSG = ''An email has already been sent for this address recently. Please check your SPAM folder, or try again in a few minutes.''"

text \<open>
  \<^verbatim>\<open>models.User.findOne({ where: { email }, include: [{ association: 'collective',
  required: true }] })\<close>: the first user with this email whose account is live.
\<close>

definition sendGuestConfirmationEmail_resolve :: "Config \<Rightarrow> nat \<Rightarrow> string \<Rightarrow> Request \<Rightarrow> bool io" where
  "sendGuestConfirmationEmail_resolve config now args_email req =
     (if remoteUser req \<noteq> None
      then throw (BadRequest ''You're signed in, which means your account is already verified. Sign out first if you want to verify another account.'')
      else
        await (registerCall (ipKey req) (confirmGuestEmailPerMinutePerIp config) 60 now) (\<lambda>ok.
          if \<not> ok then throw (RateLimitExceeded IP_LIMIT_MSG)
          else
            let email = toLowerCase (trim args_email)
            in await (registerCall (emailKey email) (confirmGuestEmailPerMinute config) 60 now)
                 (\<lambda>ok.
                 if \<not> ok then throw (RateLimitExceeded EMAIL_LIMIT_MSG)
                 else
                   (\<lambda>w. await (models_User_findOne (User_findOne_email email)
                                  (\<lambda>u. u_email u = email
                                        \<and> liveCollective w (u_CollectiveId u) \<noteq> None)) (\<lambda>found.
                     case found of
                       None \<Rightarrow> throw (NotFound ''No user found for this email address'')
                     | Some usr \<Rightarrow>
                         if u_confirmedAt usr \<noteq> None
                         then throw (BadRequest ''This account has already been confirmed'')
                         else
                           await (emailLib_send
                                    \<lparr>m_template = ''confirm-guest-account'',
                                     m_recipient = u_email usr,
                                     m_email = u_email usr,
                                     m_verifyAccountLink =
                                       website config @ ''/confirm/guest/''
                                       @ (case u_emailConfirmationToken usr of
                                            None \<Rightarrow> ''null'' | Some t \<Rightarrow> t)
                                       @ ''?email='' @ u_email usr\<rparr>) (\<lambda>_.
                           ret True)) w))))"

subsection \<open>A small database for the examples\<close>

text \<open>
  Two guests who have not confirmed their email (accounts 1 and 2, each with one guest
  token; account 2 has received one contribution) and one confirmed user (account 3).
\<close>

definition guestCollective :: "nat \<Rightarrow> string \<Rightarrow> nat \<Rightarrow> Collective" where
  "guestCollective i slug creator =
     \<lparr>c_id = i, c_type = ''USER'', c_slug = slug, c_name = ''Guest'',
      c_data = [(''isGuest'', JBool True)], c_address = None, c_countryISO = None,
      c_CreatedByUserId = Some creator, c_deletedAt = None\<rparr>"

definition userAda :: User where
  "userAda = \<lparr>u_id = 1, u_email = ''ada@example.org'', u_confirmedAt = None, u_CollectiveId = 1,
              u_emailConfirmationToken = Some ''confirm-ada''\<rparr>"

definition userBob :: User where
  "userBob = \<lparr>u_id = 2, u_email = ''bob@example.org'', u_confirmedAt = None, u_CollectiveId = 2,
              u_emailConfirmationToken = Some ''confirm-bob''\<rparr>"

definition userEve :: User where
  "userEve = \<lparr>u_id = 3, u_email = ''eve@example.org'', u_confirmedAt = Some 100,
              u_CollectiveId = 3, u_emailConfirmationToken = None\<rparr>"

definition tokenAda :: GuestToken where
  "tokenAda = \<lparr>gt_id = 1, gt_value = ''token-ada'', gt_CollectiveId = 1, gt_deletedAt = None\<rparr>"

definition tokenBob :: GuestToken where
  "tokenBob = \<lparr>gt_id = 2, gt_value = ''token-bob'', gt_CollectiveId = 2, gt_deletedAt = None\<rparr>"

definition exampleWorld :: world where
  "exampleWorld =
     \<lparr>Collectives =
        [guestCollective 1 ''guest-1a2b3c4d'' 1, guestCollective 2 ''guest-5e6f7a8b'' 2,
         \<lparr>c_id = 3, c_type = ''USER'', c_slug = ''eve'', c_name = ''Eve'',
          c_data = [(''isGuest'', JBool False)], c_address = None, c_countryISO = Some ''BE'',
          c_CreatedByUserId = Some 3, c_deletedAt = None\<rparr>],
      Users = [userAda, userBob, userEve],
      GuestTokens = [tokenAda, tokenBob],
      Transactions = [\<lparr>t_id = 1, t_FromCollectiveId = 2, t_CollectiveId = 3\<rparr>],
      rateLimits = [], outbox = [], oplog = []\<rparr>"

definition exampleRandom :: Random where
  "exampleRandom =
     \<lparr>rnd_emailConfirmationToken = ''c0ffee'', rnd_guestToken = ''f00d'',
      rnd_uuid = ''9b1deb4d-3b7d-4bad-9bdd-2b0d7b3dcb6d''\<rparr>"

definition exampleSlug :: "string list \<Rightarrow> Collective list \<Rightarrow> string" where
  "exampleSlug names cs = toLowerCase (concat names)"

definition exampleConfig :: Config where
  "exampleConfig =
     \<lparr>confirmGuestEmailPerMinutePerIp = 2, confirmGuestEmailPerMinute = 1,
      website = ''https://opencollective.com''\<rparr>"

text \<open>The tables of the database are the same in two states.\<close>

definition sameRecords :: "world \<Rightarrow> world \<Rightarrow> bool" where
  "sameRecords w w' =
     (Collectives w' = Collectives w \<and> Users w' = Users w \<and> GuestTokens w' = GuestTokens w
      \<and> Transactions w' = Transactions w)"

text \<open>
  The value that \<^verbatim>\<open>updateCollective\<close> leaves in a field: the supplied one when it is a
  non-empty string that differs from the stored one, the stored one otherwise.
\<close>

definition backfill :: "string option \<Rightarrow> string option \<Rightarrow> string option" where
  "backfill supplied stored =
     (case supplied of
        None \<Rightarrow> stored
      | Some v \<Rightarrow> if v \<noteq> [] \<and> Some v \<noteq> stored then Some v else stored)"

definition backfillStr :: "string option \<Rightarrow> string \<Rightarrow> string" where
  "backfillStr supplied stored =
     (case supplied of
        None \<Rightarrow> stored
      | Some v \<Rightarrow> if v \<noteq> [] \<and> v \<noteq> stored then v else stored)"

text \<open>The rows that \<^verbatim>\<open>createGuestProfile\<close> inserts into the tables of a world.\<close>

definition newCollective :: "Random \<Rightarrow> string option \<Rightarrow> Location option \<Rightarrow> world \<Rightarrow> Collective" where
  "newCollective rnd name location w =
     \<lparr>c_id = nextId (map c_id (Collectives w)), c_type = COLLECTIVE_TYPE_USER,
      c_slug = ''guest-'' @ takeWhile (\<lambda>c. c \<noteq> CHR ''-'') (rnd_uuid rnd),
      c_name = (case name of None \<Rightarrow> DEFAULT_GUEST_NAME | Some n \<Rightarrow> n),
      c_data = [(''isGuest'', JBool True)],
      c_address = Option.bind location address,
      c_countryISO = Option.bind location country,
      c_CreatedByUserId = None, c_deletedAt = None\<rparr>"

definition newUser :: "Random \<Rightarrow> string \<Rightarrow> world \<Rightarrow> User" where
  "newUser rnd e w =
     \<lparr>u_id = nextId (map u_id (Users w)), u_email = e, u_confirmedAt = None,
      u_CollectiveId = nextId (map c_id (Collectives w)),
      u_emailConfirmationToken = Some (rnd_emailConfirmationToken rnd)\<rparr>"

definition newToken :: "Random \<Rightarrow> world \<Rightarrow> GuestToken" where
  "newToken rnd w =
     \<lparr>gt_id = nextId (map gt_id (GuestTokens w)), gt_value = rnd_guestToken rnd,
      gt_CollectiveId = nextId (map c_id (Collectives w)), gt_deletedAt = None\<rparr>"

text \<open>
  The account that a request reusing a guest token returns: name, country and address
  are backfilled, every other attribute is the stored one.
\<close>

definition backfilled :: "Collective \<Rightarrow> string option \<Rightarrow> Location option \<Rightarrow> Collective" where
  "backfilled c name location =
     c\<lparr>c_name := backfillStr name (c_name c),
       c_countryISO := backfill (Option.bind location country) (c_countryISO c),
       c_address := backfill (Option.bind location address) (c_address c)\<rparr>"


definition adaSecondProfile :: GuestProfileDetails where
  "adaSecondProfile =
     \<lparr>user = userAda,
      collective = guestCollective 4 ''guest-9b1deb4d'' 1,
      token = \<lparr>gt_id = 3, gt_value = ''f00d'', gt_CollectiveId = 4, gt_deletedAt = None\<rparr>\<rparr>"

text \<open>The condition of the query in \<^verbatim>\<open>loadGuestToken\<close>, and whether a token resolves.\<close>

definition tokenQuery :: "world \<Rightarrow> string \<Rightarrow> GuestToken \<Rightarrow> bool" where
  "tokenQuery w v t =
     (gt_value t = v \<and> gt_deletedAt t = None \<and> liveCollective w (gt_CollectiveId t) \<noteq> None)"

definition tokenResolves :: "world \<Rightarrow> string \<Rightarrow> bool" where
  "tokenResolves w t = (\<not> isl (fst (loadGuestToken t w)))"

text \<open>The name of the account after the confirmation, and the account itself.\<close>

definition confirmedName :: "string option \<Rightarrow> Collective \<Rightarrow> string" where
  "confirmedName name c0 =
     (case name of
        Some n \<Rightarrow> n
      | None \<Rightarrow> if c_name c0 \<noteq> ''Guest'' then c_name c0 else ''Incognito'')"

definition confirmFields ::
  "(string list \<Rightarrow> Collective list \<Rightarrow> string) \<Rightarrow> string option \<Rightarrow> world \<Rightarrow> Collective
     \<Rightarrow> Collective \<Rightarrow> Collective" where
  "confirmFields gen name w c0 r =
     r\<lparr>c_name := confirmedName name c0,
       c_slug := gen [confirmedName name c0] (Collectives w),
       c_data := AList.update ''isGuest'' (JBool False) (c_data c0)\<rparr>"

text \<open>Ada's account after she has confirmed without giving a name.\<close>

definition adaConfirmed :: Collective where
  "adaConfirmed =
     \<lparr>c_id = 1, c_type = ''USER'', c_slug = ''incognito'', c_name = ''Incognito'',
      c_data = [(''isGuest'', JBool False)], c_address = None, c_countryISO = None,
      c_CreatedByUserId = Some 1, c_deletedAt = None\<rparr>"

text \<open>The quota of a key is used up in the window that is current at the time \<open>now\<close>.\<close>

definition limitReached :: "nat \<Rightarrow> string \<Rightarrow> nat \<Rightarrow> world \<Rightarrow> bool" where
  "limitReached now key limit w = (limit \<le> snd (currentWindow now 60 key (rateLimits w)))"

text \<open>A caller who is not signed in, and two worlds in which a quota is used up.\<close>

definition exampleRequest :: Request where
  "exampleRequest = \<lparr>remoteUser = None, ip = ''203.0.113.7''\<rparr>"

definition worldIpBusy :: world where
  "worldIpBusy = exampleWorld\<lparr>rateLimits := [(ipKey exampleRequest, (0, 2))]\<rparr>"

definition worldEmailBusy :: world where
  "worldEmailBusy = exampleWorld\<lparr>rateLimits := [(emailKey ''ada@example.org'', (0, 1))]\<rparr>"

section \<open>Properties\<close>

subsection \<open>Auxiliary facts\<close>

lemmas io_defs = await_def ret_def throw_def logged_def transaction_def

lemma fold_max_upper: "i \<in> set ids \<Longrightarrow> i \<le> fold max ids (m::nat)"
proof (induction ids arbitrary: m)
  case Nil
  then show ?case by simp
next
  case (Cons a ids)
  have mono: "\<And>k. k \<le> fold max ids k"
  proof -
    fix k show "k \<le> fold max ids k"
    proof (induction ids arbitrary: k)
      case Nil
      show ?case by simp
    next
      case (Cons b bs)
      have "k \<le> max b k" by simp
      also have "\<dots> \<le> fold max bs (max b k)" by (rule Cons.IH)
      finally show ?case by simp
    qed
  qed
  show ?case
  proof (cases "i = a")
    case True
    have "a \<le> max a m" by simp
    also have "\<dots> \<le> fold max ids (max a m)" by (rule mono)
    finally show ?thesis using True by simp
  next
    case False
    with Cons.prems have "i \<in> set ids" by simp
    then show ?thesis using Cons.IH by simp
  qed
qed

lemma nextId_fresh: "i \<in> set ids \<Longrightarrow> i < nextId ids"
  using fold_max_upper [of i ids 0] by (simp add: nextId_def)

lemma nextId_notin: "nextId ids \<notin> set ids"
  using nextId_fresh [of "nextId ids" ids] by auto

lemma map_other_ids:
  "\<forall>r \<in> set xs. key r \<noteq> i \<Longrightarrow> map (\<lambda>r. if key r = i then f r else r) xs = xs"
  by (induction xs) auto

lemma map_fresh_id:
  "map (\<lambda>r. if key r = nextId (map key xs) then f r else r) xs = xs"
proof (rule map_other_ids)
  show "\<forall>r \<in> set xs. key r \<noteq> nextId (map key xs)"
    using nextId_fresh [of _ "map key xs"] by fastforce
qed

lemma filter_map_other:
  assumes "\<And>r. key (f r) = key r"
  shows "filter (\<lambda>r. key r \<noteq> i) (map (\<lambda>r. if key r = i then f r else r) xs)
           = filter (\<lambda>r. key r \<noteq> i) xs"
  using assms by (induction xs) simp_all

lemma bind_case: "(case l of None \<Rightarrow> None | Some x \<Rightarrow> f x) = Option.bind l f"
  by (cases l) auto

lemma createGuestProfile_run:
  assumes "e \<noteq> []"
  shows "createGuestProfile rnd (Some e) name location w =
     (case find (\<lambda>u. u_email u = e) (Users w) of
        None \<Rightarrow>
          (Inr \<lparr>user = newUser rnd e w,
                collective = (newCollective rnd name location w)
                               \<lparr>c_CreatedByUserId := Some (nextId (map u_id (Users w)))\<rparr>,
                token = newToken rnd w\<rparr>,
           w\<lparr>Collectives := Collectives w @
                [(newCollective rnd name location w)
                   \<lparr>c_CreatedByUserId := Some (nextId (map u_id (Users w)))\<rparr>],
             Users := Users w @ [newUser rnd e w],
             GuestTokens := GuestTokens w @ [newToken rnd w],
             oplog := oplog w @
               [Collective_create (c_slug (newCollective rnd name location w)),
                User_findOne_email e, User_create e,
                Collective_update (nextId (map c_id (Collectives w))),
                GuestToken_create (rnd_guestToken rnd)]\<rparr>)
      | Some u \<Rightarrow>
          if u_confirmedAt u \<noteq> None
          then (Inl (Error ALREADY_EXISTS_MSG),
                w\<lparr>oplog := oplog w @
                    [Collective_create (c_slug (newCollective rnd name location w)),
                     User_findOne_email e]\<rparr>)
          else
            (Inr \<lparr>user = u,
                  collective = (newCollective rnd name location w)
                                 \<lparr>c_CreatedByUserId := Some (u_id u)\<rparr>,
                  token = newToken rnd w\<rparr>,
             w\<lparr>Collectives := Collectives w @
                  [(newCollective rnd name location w)\<lparr>c_CreatedByUserId := Some (u_id u)\<rparr>],
               GuestTokens := GuestTokens w @ [newToken rnd w],
               oplog := oplog w @
                 [Collective_create (c_slug (newCollective rnd name location w)),
                  User_findOne_email e,
                  Collective_update (nextId (map c_id (Collectives w))),
                  GuestToken_create (rnd_guestToken rnd)]\<rparr>))"
proof (cases "find (\<lambda>u. u_email u = e) (Users w)")
  case None
  then show ?thesis using assms
    by (simp add: createGuestProfile_def models_Collective_create_def models_User_findOne_def
      models_User_create_def instance_update_Collective_def models_GuestToken_create_def
      io_defs Let_def newCollective_def newUser_def newToken_def map_fresh_id bind_case)
next
  case (Some u)
  then show ?thesis using assms
    by (simp add: createGuestProfile_def models_Collective_create_def models_User_findOne_def
      instance_update_Collective_def models_GuestToken_create_def
      io_defs Let_def newCollective_def newToken_def map_fresh_id bind_case)
qed

lemma loadGuestToken_Inr:
  assumes "loadGuestToken tok w = (Inr p, w1)"
  shows "Collectives w1 = Collectives w \<and> Users w1 = Users w \<and> GuestTokens w1 = GuestTokens w
     \<and> Transactions w1 = Transactions w \<and> rateLimits w1 = rateLimits w \<and> outbox w1 = outbox w
     \<and> collective p \<in> set (Collectives w) \<and> user p \<in> set (Users w) \<and> token p \<in> set (GuestTokens w)
     \<and> liveCollective w (gt_CollectiveId (token p)) = Some (collective p)
     \<and> u_CollectiveId (user p) = c_id (collective p)
     \<and> gt_value (token p) = tok \<and> gt_deletedAt (token p) = None"
  using assms
  apply (simp add: loadGuestToken_def models_GuestToken_findOne_def models_User_findOne_def io_defs
       split: option.splits prod.splits)
  apply (auto simp: find_Some_iff liveCollective_def)
  done

lemma setFields_empty: "isEmpty fs \<Longrightarrow> setFields fs r = r"
  by (simp add: isEmpty_def setFields_def)

lemma setFields_id [simp]: "c_id (setFields fs r) = c_id r"
  by (simp add: setFields_def)

lemma updateCollective_run:
  "\<exists>w'. updateCollective c name location w = (Inr (setFields (fieldsToUpdate c name location) c), w')
     \<and> Collectives w' = map (\<lambda>r. if c_id r = c_id c then setFields (fieldsToUpdate c name location) r else r) (Collectives w)
     \<and> Users w' = Users w \<and> GuestTokens w' = GuestTokens w \<and> Transactions w' = Transactions w"
proof (cases "isEmpty (fieldsToUpdate c name location)")
  case True
  then have "map (\<lambda>r. if c_id r = c_id c then setFields (fieldsToUpdate c name location) r else r)
               (Collectives w) = Collectives w"
    by (simp add: setFields_empty map_idI)
  with True show ?thesis
    by (simp add: updateCollective_def ret_def setFields_empty)
next
  case False
  then show ?thesis
    by (simp add: updateCollective_def instance_update_Collective_def logged_def Let_def)
qed

lemma backfill_name:
  "(case f_name (fieldsToUpdate c name location) of None \<Rightarrow> c_name c | Some n \<Rightarrow> n)
     = backfillStr name (c_name c)"
  by (cases name) (auto simp: fieldsToUpdate_def backfillStr_def truthy_def)

lemma backfill_country:
  "(case f_countryISO (fieldsToUpdate c name location) of
      None \<Rightarrow> c_countryISO c | Some v \<Rightarrow> Some v)
     = backfill (Option.bind location country) (c_countryISO c)"
proof (cases location)
  case None
  then show ?thesis by (simp add: fieldsToUpdate_def backfill_def)
next
  case (Some l)
  then show ?thesis
    by (cases "country l") (auto simp: fieldsToUpdate_def backfill_def truthy_def)
qed

lemma backfill_address:
  "(case f_address (fieldsToUpdate c name location) of
      None \<Rightarrow> c_address c | Some v \<Rightarrow> Some v)
     = backfill (Option.bind location address) (c_address c)"
proof (cases location)
  case None
  then show ?thesis by (simp add: fieldsToUpdate_def backfill_def)
next
  case (Some l)
  then show ?thesis
    by (cases "address l") (auto simp: fieldsToUpdate_def backfill_def truthy_def)
qed

lemma setFields_backfill:
  "setFields (fieldsToUpdate c name location) c =
     c\<lparr>c_name := backfillStr name (c_name c),
       c_countryISO := backfill (Option.bind location country) (c_countryISO c),
       c_address := backfill (Option.bind location address) (c_address c)\<rparr>"
  unfolding setFields_def backfill_name backfill_country backfill_address ..

subsection \<open>Too many guest tokens\<close>

text \<open>
  C8. A call of the mutation \<^verbatim>\<open>confirmGuestAccount\<close> with more than 30 guest tokens fails
  with the validation error, and the world after the call is the world before it: no
  table has changed and the log has no new entry, so that no user was looked up, nothing
  was updated or merged and no token was deleted.
\<close>

theorem confirmGuestAccount_resolve_too_many:
  "30 < length g \<Longrightarrow>
   confirmGuestAccount_resolve gen now emailConfirmationToken (Some g) name w
     = (Inl (Error ''Cannot link more than 30 profiles at the same time''), w)"
  by (simp add: confirmGuestAccount_resolve_def throw_def)

theorem confirmGuestAccount_resolve_too_many_witness:
  "30 < length (replicate 31 ''token-bob'') \<and>
   confirmGuestAccount_resolve exampleSlug 7 ''confirm-ada'' (Some (replicate 31 ''token-bob''))
       None exampleWorld
     = (Inl (Error ''Cannot link more than 30 profiles at the same time''), exampleWorld)"
  using confirmGuestAccount_resolve_too_many
    [of "replicate 31 ''token-bob''" exampleSlug 7 "''confirm-ada''" None exampleWorld]
  by simp

subsection \<open>Reusing a guest token: blanks never erase\<close>

text \<open>
  C9. A guest-profile request with a token is on the path of reuse when the token resolves
  to a profile, the user of the profile is not confirmed, and the request has no email or
  an email that, trimmed, is the user's. Such a request succeeds with the user and the
  token of the profile and with the account in which each of name, country and address
  is the supplied value when that value is a non-empty string different from the stored
  one, and the stored value when the supplied one is missing, empty or the same. The
  account is stored in this form, the accounts with another identifier are untouched,
  and no user or token changes.
\<close>

theorem reuse_backfills:
  assumes "loadGuestToken tokenValue w = (Inr p, w1)"
    and "tokenValue \<noteq> []"
    and "u_confirmedAt (user p) = None"
    and "\<not> truthy email \<or> map_option trim email = Some (u_email (user p))"
  shows "\<exists>w'. getOrCreateGuestProfile rnd email (Some tokenValue) name location w
            = (Inr \<lparr>user = user p, collective = backfilled (collective p) name location,
                    token = token p\<rparr>, w')
          \<and> backfilled (collective p) name location \<in> set (Collectives w')
          \<and> filter (\<lambda>r. c_id r \<noteq> c_id (collective p)) (Collectives w')
              = filter (\<lambda>r. c_id r \<noteq> c_id (collective p)) (Collectives w)
          \<and> Users w' = Users w \<and> GuestTokens w' = GuestTokens w"
proof -
  let ?c = "collective p"
  let ?fs = "fieldsToUpdate ?c name location"
  from loadGuestToken_Inr [OF assms(1)]
  have tabs: "Collectives w1 = Collectives w" "Users w1 = Users w" "GuestTokens w1 = GuestTokens w"
    and mem: "?c \<in> set (Collectives w)" by simp_all
  from updateCollective_run [of ?c name location w1] obtain w' where
    run: "updateCollective ?c name location w1 = (Inr (setFields ?fs ?c), w')"
    and rows: "Collectives w' = map (\<lambda>r. if c_id r = c_id ?c then setFields ?fs r else r) (Collectives w1)"
    and rest: "Users w' = Users w1" "GuestTokens w' = GuestTokens w1"
    by blast
  have c': "setFields ?fs ?c = backfilled ?c name location"
    by (simp add: setFields_backfill backfilled_def)
  have cond: "\<not> (truthy email \<and> Some (u_email (user p)) \<noteq> map_option trim email)"
    using assms(4) by auto
  have res: "getOrCreateGuestProfile rnd email (Some tokenValue) name location w
      = (Inr \<lparr>user = user p, collective = backfilled ?c name location, token = token p\<rparr>, w')"
    unfolding getOrCreateGuestProfile_def getGuestProfileFromToken_def await_def
    by (simp only: assms(1-3) cond run c' ret_def prod.case sum.case option.case if_False
        simp_thms)
  have "setFields ?fs ?c \<in> set (Collectives w')"
    unfolding rows tabs using mem by (simp add: image_iff) (rule bexI [of _ ?c], simp_all)
  then have in': "backfilled ?c name location \<in> set (Collectives w')" by (simp only: c')
  have others: "filter (\<lambda>r. c_id r \<noteq> c_id ?c) (Collectives w')
      = filter (\<lambda>r. c_id r \<noteq> c_id ?c) (Collectives w)"
    unfolding rows tabs by (rule filter_map_other) simp
  show ?thesis using res in' others rest tabs by (intro exI [of _ w']) simp
qed

theorem reuse_backfills_witness:
  "loadGuestToken ''token-ada'' exampleWorld
     = (Inr \<lparr>user = userAda, collective = guestCollective 1 ''guest-1a2b3c4d'' 1, token = tokenAda\<rparr>,
        exampleWorld\<lparr>oplog := [GuestToken_findOne ''token-ada'', User_findOne_CollectiveId 1]\<rparr>)
   \<and> ''token-ada'' \<noteq> []
   \<and> u_confirmedAt userAda = None
   \<and> map_option trim (Some '' ada@example.org  '') = Some (u_email userAda)
   \<and> backfilled (guestCollective 1 ''guest-1a2b3c4d'' 1) (Some ''Zappa'')
        (Some \<lparr>country = Some ''FR'', address = Some ''''\<rparr>)
       = \<lparr>c_id = 1, c_type = ''USER'', c_slug = ''guest-1a2b3c4d'', c_name = ''Zappa'',
          c_data = [(''isGuest'', JBool True)], c_address = None, c_countryISO = Some ''FR'',
          c_CreatedByUserId = Some 1, c_deletedAt = None\<rparr>
   \<and> (\<exists>w'. getOrCreateGuestProfile exampleRandom (Some '' ada@example.org  '')
               (Some ''token-ada'') (Some ''Zappa'') (Some \<lparr>country = Some ''FR'', address = Some ''''\<rparr>) exampleWorld
            = (Inr \<lparr>user = userAda,
                    collective = backfilled (guestCollective 1 ''guest-1a2b3c4d'' 1) (Some ''Zappa'')
                                   (Some \<lparr>country = Some ''FR'', address = Some ''''\<rparr>),
                    token = tokenAda\<rparr>, w')
          \<and> Users w' = Users exampleWorld)"
proof -
  have h1: "loadGuestToken ''token-ada'' exampleWorld
     = (Inr \<lparr>user = userAda, collective = guestCollective 1 ''guest-1a2b3c4d'' 1, token = tokenAda\<rparr>,
        exampleWorld\<lparr>oplog := [GuestToken_findOne ''token-ada'', User_findOne_CollectiveId 1]\<rparr>)"
    by code_simp
  have h2: "u_confirmedAt userAda = None" by (simp add: userAda_def)
  have h3: "map_option trim (Some '' ada@example.org  '') = Some (u_email userAda)"
    by code_simp
  have h4: "backfilled (guestCollective 1 ''guest-1a2b3c4d'' 1) (Some ''Zappa'')
        (Some \<lparr>country = Some ''FR'', address = Some ''''\<rparr>)
       = \<lparr>c_id = 1, c_type = ''USER'', c_slug = ''guest-1a2b3c4d'', c_name = ''Zappa'',
          c_data = [(''isGuest'', JBool True)], c_address = None, c_countryISO = Some ''FR'',
          c_CreatedByUserId = Some 1, c_deletedAt = None\<rparr>"
    by code_simp
  have h0: "''token-ada'' \<noteq> []" by simp
  from reuse_backfills [of "''token-ada''" exampleWorld _ _ "Some '' ada@example.org  ''"
      exampleRandom "Some ''Zappa''" "Some \<lparr>country = Some ''FR'', address = Some ''''\<rparr>", OF h1 h0]
  have "\<exists>w'. getOrCreateGuestProfile exampleRandom (Some '' ada@example.org  '')
               (Some ''token-ada'') (Some ''Zappa'') (Some \<lparr>country = Some ''FR'', address = Some ''''\<rparr>) exampleWorld
            = (Inr \<lparr>user = userAda,
                    collective = backfilled (guestCollective 1 ''guest-1a2b3c4d'' 1) (Some ''Zappa'')
                                   (Some \<lparr>country = Some ''FR'', address = Some ''''\<rparr>),
                    token = tokenAda\<rparr>, w')
          \<and> Users w' = Users exampleWorld"
    using h2 h3 by auto
  with h0 h1 h2 h3 h4 show ?thesis by blast
qed

subsection \<open>Creating a guest profile\<close>

lemma createGuestProfile_no_email:
  assumes "\<not> truthy email"
  shows "createGuestProfile rnd email name location w
           = (Inl (Error ''An email is required to create a guest profile''), w)"
  using assms by (cases email) (simp_all add: createGuestProfile_def truthy_def throw_def)

lemma createGuestProfile_Inl:
  assumes "createGuestProfile rnd email name location w = (Inl err, w')"
  shows "sameRecords w w' \<and> rateLimits w' = rateLimits w \<and> outbox w' = outbox w"
proof (cases "truthy email")
  case False
  with assms show ?thesis by (simp add: createGuestProfile_no_email sameRecords_def)
next
  case True
  then obtain e where e: "email = Some e" "e \<noteq> []"
    by (cases email) (simp_all add: truthy_def)
  show ?thesis
  proof (cases "find (\<lambda>u. u_email u = e) (Users w)")
    case None
    with assms e show ?thesis by (simp add: createGuestProfile_run)
  next
    case (Some u)
    show ?thesis
    proof (cases "u_confirmedAt u = None")
      case True
      with assms e Some show ?thesis by (simp add: createGuestProfile_run)
    next
      case False
      with assms e Some have "w' = w\<lparr>oplog := oplog w @
                    [Collective_create (c_slug (newCollective rnd name location w)),
                     User_findOne_email e]\<rparr>"
        by (simp add: createGuestProfile_run)
      then show ?thesis by (simp add: sameRecords_def)
    qed
  qed
qed

lemma createGuestProfile_Inr:
  assumes "createGuestProfile rnd email name location w = (Inr p, w')"
  shows "\<exists>e. email = Some e \<and> e \<noteq> []
          \<and> collective p = (newCollective rnd name location w)
                               \<lparr>c_CreatedByUserId := Some (u_id (user p))\<rparr>
          \<and> token p = newToken rnd w
          \<and> Collectives w' = Collectives w @ [collective p]
          \<and> GuestTokens w' = GuestTokens w @ [token p]
          \<and> Transactions w' = Transactions w
          \<and> (case find (\<lambda>u. u_email u = e) (Users w) of
                None \<Rightarrow> user p = newUser rnd e w \<and> Users w' = Users w @ [user p]
              | Some u \<Rightarrow> user p = u \<and> u_confirmedAt u = None \<and> Users w' = Users w)"
proof (cases "truthy email")
  case False
  with assms show ?thesis by (simp add: createGuestProfile_no_email)
next
  case True
  then obtain e where e: "email = Some e" "e \<noteq> []"
    by (cases email) (simp_all add: truthy_def)
  show ?thesis
  proof (cases "find (\<lambda>u. u_email u = e) (Users w)")
    case None
    with assms e have p: "p = \<lparr>user = newUser rnd e w,
                collective = (newCollective rnd name location w)
                               \<lparr>c_CreatedByUserId := Some (nextId (map u_id (Users w)))\<rparr>,
                token = newToken rnd w\<rparr>"
      and w': "w' = w\<lparr>Collectives := Collectives w @
                [(newCollective rnd name location w)
                   \<lparr>c_CreatedByUserId := Some (nextId (map u_id (Users w)))\<rparr>],
             Users := Users w @ [newUser rnd e w],
             GuestTokens := GuestTokens w @ [newToken rnd w],
             oplog := oplog w @
               [Collective_create (c_slug (newCollective rnd name location w)),
                User_findOne_email e, User_create e,
                Collective_update (nextId (map c_id (Collectives w))),
                GuestToken_create (rnd_guestToken rnd)]\<rparr>"
      by (simp_all add: createGuestProfile_run)
    have uid: "u_id (newUser rnd e w) = nextId (map u_id (Users w))"
      by (simp add: newUser_def)
    show ?thesis using e None by (simp add: p w' uid)
  next
    case (Some u)
    show ?thesis
    proof (cases "u_confirmedAt u = None")
      case False
      with assms e Some show ?thesis by (simp add: createGuestProfile_run)
    next
      case True
      with assms e Some have p: "p = \<lparr>user = u,
                  collective = (newCollective rnd name location w)
                                 \<lparr>c_CreatedByUserId := Some (u_id u)\<rparr>,
                  token = newToken rnd w\<rparr>"
        and w': "w' = w\<lparr>Collectives := Collectives w @
                  [(newCollective rnd name location w)\<lparr>c_CreatedByUserId := Some (u_id u)\<rparr>],
               GuestTokens := GuestTokens w @ [newToken rnd w],
               oplog := oplog w @
                 [Collective_create (c_slug (newCollective rnd name location w)),
                  User_findOne_email e,
                  Collective_update (nextId (map c_id (Collectives w))),
                  GuestToken_create (rnd_guestToken rnd)]\<rparr>"
        by (simp_all add: createGuestProfile_run)
      show ?thesis using e Some True by (simp add: p w')
    qed
  qed
qed

lemma find_SomeD: "find P xs = Some x \<Longrightarrow> x \<in> set xs \<and> P x"
  by (auto simp: find_Some_iff)



lemma createGuestProfile_confirmed:
  assumes "find (\<lambda>u. u_email u = e) (Users w) = Some u" and "u_confirmedAt u \<noteq> None"
    and "e \<noteq> []"
  shows "\<exists>w'. createGuestProfile rnd (Some e) name location w
                = (Inl (Error ALREADY_EXISTS_MSG), w') \<and> sameRecords w w'"
  using assms by (simp add: createGuestProfile_run sameRecords_def)

lemma getOrCreate_no_token:
  "\<not> truthy tok \<Longrightarrow>
   getOrCreateGuestProfile rnd email tok name location w
     = createGuestProfile rnd email name location w"
  by (cases tok) (simp_all add: getOrCreateGuestProfile_def truthy_def)

subsection \<open>The email of a user who has not confirmed\<close>

text \<open>
  C2, as the code has it. A request without a token whose email is the email of a user
  who has not confirmed succeeds with that user, and no user is added or changed. The
  account it returns is a new one: it is appended to the accounts, its identifier is
  the identifier of no account before, it is flagged as guest and created by the
  user; one new guest token points to it. The comment in \<^verbatim>\<open>getOrCreateGuestProfile\<close>
  says so: "a new Collective profile will be created for the contribution if the guest
  token don't match".
\<close>

theorem unconfirmed_email_new_account:
  assumes "find (\<lambda>u. u_email u = e) (Users w) = Some usr"
    and "u_confirmedAt usr = None"
    and "e \<noteq> []"
    and "\<not> truthy tok"
  shows "\<exists>p w'. getOrCreateGuestProfile rnd (Some e) tok name location w = (Inr p, w')
          \<and> user p = usr \<and> Users w' = Users w
          \<and> Collectives w' = Collectives w @ [collective p]
          \<and> c_id (collective p) \<notin> set (map c_id (Collectives w))
          \<and> map_of (c_data (collective p)) ''isGuest'' = Some (JBool True)
          \<and> c_CreatedByUserId (collective p) = Some (u_id usr)
          \<and> GuestTokens w' = GuestTokens w @ [token p]
          \<and> gt_CollectiveId (token p) = c_id (collective p)"
proof -
  let ?c = "(newCollective rnd name location w)\<lparr>c_CreatedByUserId := Some (u_id usr)\<rparr>"
  let ?p = "\<lparr>user = usr, collective = ?c, token = newToken rnd w\<rparr>"
  let ?w' = "w\<lparr>Collectives := Collectives w @ [?c],
               GuestTokens := GuestTokens w @ [newToken rnd w],
               oplog := oplog w @
                 [Collective_create (c_slug (newCollective rnd name location w)),
                  User_findOne_email e,
                  Collective_update (nextId (map c_id (Collectives w))),
                  GuestToken_create (rnd_guestToken rnd)]\<rparr>"
  have run: "getOrCreateGuestProfile rnd (Some e) tok name location w = (Inr ?p, ?w')"
    using assms by (simp add: getOrCreate_no_token createGuestProfile_run)
  have fresh: "c_id ?c \<notin> set (map c_id (Collectives w))"
    using nextId_notin [of "map c_id (Collectives w)"] by (simp add: newCollective_def)
  have guest: "map_of (c_data ?c) ''isGuest'' = Some (JBool True)"
    by (simp add: newCollective_def)
  have tok: "gt_CollectiveId (newToken rnd w) = c_id ?c"
    by (simp add: newCollective_def newToken_def)
  show ?thesis
    apply (rule exI [of _ ?p], rule exI [of _ ?w'])
    using run fresh guest tok apply simp
    done
qed

theorem unconfirmed_email_new_account_witness:
  "find (\<lambda>u. u_email u = ''ada@example.org'') (Users exampleWorld) = Some userAda
   \<and> u_confirmedAt userAda = None \<and> ''ada@example.org'' \<noteq> [] \<and> \<not> truthy None
   \<and> (\<exists>p w'. getOrCreateGuestProfile exampleRandom (Some ''ada@example.org'') None None None
                 exampleWorld = (Inr p, w')
          \<and> user p = userAda \<and> Users w' = Users exampleWorld
          \<and> Collectives w' = Collectives exampleWorld @ [collective p]
          \<and> c_id (collective p) \<notin> set (map c_id (Collectives exampleWorld)))"
proof -
  have h1: "find (\<lambda>u. u_email u = ''ada@example.org'') (Users exampleWorld) = Some userAda"
    by code_simp
  have h2: "u_confirmedAt userAda = None" by (simp add: userAda_def)
  have h3: "''ada@example.org'' \<noteq> []" by simp
  have h4: "\<not> truthy None" by (simp add: truthy_def)
  from unconfirmed_email_new_account [OF h1 h2 h3 h4, of exampleRandom None None]
  have "\<exists>p w'. getOrCreateGuestProfile exampleRandom (Some ''ada@example.org'') None None None
                 exampleWorld = (Inr p, w')
          \<and> user p = userAda \<and> Users w' = Users exampleWorld
          \<and> Collectives w' = Collectives exampleWorld @ [collective p]
          \<and> c_id (collective p) \<notin> set (map c_id (Collectives exampleWorld))"
    by blast
  with h1 h2 h3 h4 show ?thesis by blast
qed

text \<open>
  C2 as stated fails: Ada has not confirmed and her account is account 1; a request
  with her email and no token returns account 4, and the accounts are four afterwards.
\<close>

theorem unconfirmed_email_counterexample:
  "userAda \<in> set (Users exampleWorld) \<and> u_email userAda = ''ada@example.org''
   \<and> u_confirmedAt userAda = None \<and> u_CollectiveId userAda = 1
   \<and> fst (getOrCreateGuestProfile exampleRandom (Some ''ada@example.org'') None None None
            exampleWorld) = Inr adaSecondProfile
   \<and> c_id (collective adaSecondProfile) = 4
   \<and> map c_id (Collectives exampleWorld) = [1, 2, 3]
   \<and> map c_id (Collectives (snd (getOrCreateGuestProfile exampleRandom
            (Some ''ada@example.org'') None None None exampleWorld))) = [1, 2, 3, 4]"
  by code_simp

subsection \<open>Loading a guest token\<close>

lemma loadGuestToken_eq:
  "loadGuestToken tok w =
     (case find (tokenQuery w tok) (GuestTokens w) of
        None \<Rightarrow> (Inl (Error INVALID_TOKEN_MSG), w\<lparr>oplog := oplog w @ [GuestToken_findOne tok]\<rparr>)
      | Some t \<Rightarrow>
          (case liveCollective w (gt_CollectiveId t) of
             None \<Rightarrow> (Inl (Error INVALID_TOKEN_MSG), w\<lparr>oplog := oplog w @ [GuestToken_findOne tok]\<rparr>)
           | Some c \<Rightarrow>
               (case find (\<lambda>u. u_CollectiveId u = c_id c) (Users w) of
                  None \<Rightarrow> (Inl (Error INVALID_TOKEN_MSG),
                            w\<lparr>oplog := oplog w @ [GuestToken_findOne tok,
                                                   User_findOne_CollectiveId (c_id c)]\<rparr>)
                | Some u \<Rightarrow> (Inr \<lparr>user = u, collective = c, token = t\<rparr>,
                              w\<lparr>oplog := oplog w @ [GuestToken_findOne tok,
                                                     User_findOne_CollectiveId (c_id c)]\<rparr>))))"
proof -
  have q: "(\<lambda>t. gt_value t = tok \<and> gt_deletedAt t = None
                \<and> liveCollective w (gt_CollectiveId t) \<noteq> None) = tokenQuery w tok"
    by (rule ext) (simp add: tokenQuery_def)
  have unf: "loadGuestToken tok w =
     (case (case find (tokenQuery w tok) (GuestTokens w) of
              None \<Rightarrow> None
            | Some t \<Rightarrow> map_option (Pair t) (liveCollective w (gt_CollectiveId t))) of
        None \<Rightarrow> throw (Error INVALID_TOKEN_MSG)
      | Some (tok, coll) \<Rightarrow>
           await (models_User_findOne (User_findOne_CollectiveId (c_id coll))
                    (\<lambda>u. u_CollectiveId u = c_id coll)) (\<lambda>usr.
             case usr of
               None \<Rightarrow> throw (Error INVALID_TOKEN_MSG)
             | Some u \<Rightarrow> ret \<lparr>user = u, collective = coll, token = tok\<rparr>))
       (w\<lparr>oplog := oplog w @ [GuestToken_findOne tok]\<rparr>)"
    unfolding loadGuestToken_def models_GuestToken_findOne_def q await_def logged_def
    by simp
  show ?thesis
  proof (cases "find (tokenQuery w tok) (GuestTokens w)")
    case None
    then show ?thesis
      by (simp add: unf io_defs)
  next
    case t: (Some t)
    show ?thesis
    proof (cases "liveCollective w (gt_CollectiveId t)")
      case None
      with t show ?thesis
        by (simp add: unf io_defs)
    next
      case c: (Some c)
      show ?thesis
      proof (cases "find (\<lambda>u. u_CollectiveId u = c_id c) (Users w)")
        case None
        with t c show ?thesis
          by (simp add: unf models_User_findOne_def io_defs)
      next
        case (Some u)
        with t c show ?thesis
          by (simp add: unf models_User_findOne_def io_defs)
      qed
    qed
  qed
qed

lemma loadGuestToken_Inl:
  assumes "loadGuestToken tok w = (Inl err, w1)"
  shows "err = Error INVALID_TOKEN_MSG \<and> sameRecords w w1"
  using assms unfolding loadGuestToken_eq
  by (simp add: sameRecords_def split: option.splits) auto

lemma loadGuestToken_Inr_iff:
  "fst (loadGuestToken tok w) = Inr p \<longleftrightarrow>
     find (tokenQuery w tok) (GuestTokens w) = Some (token p)
     \<and> liveCollective w (gt_CollectiveId (token p)) = Some (collective p)
     \<and> find (\<lambda>u. u_CollectiveId u = c_id (collective p)) (Users w) = Some (user p)"
proof (cases "find (tokenQuery w tok) (GuestTokens w)")
  case None
  then show ?thesis by (simp add: loadGuestToken_eq)
next
  case t: (Some t)
  show ?thesis
  proof (cases "liveCollective w (gt_CollectiveId t)")
    case None
    with t show ?thesis by (auto simp: loadGuestToken_eq)
  next
    case c: (Some c)
    show ?thesis
    proof (cases "find (\<lambda>u. u_CollectiveId u = c_id c) (Users w)")
      case None
      with t c show ?thesis by (auto simp: loadGuestToken_eq)
    next
      case (Some u)
      have "p = \<lparr>user = u, collective = c, token = t\<rparr>
             \<longleftrightarrow> token p = t \<and> collective p = c \<and> user p = u"
        by (cases p) auto
      with t c Some show ?thesis by (auto simp: loadGuestToken_eq)
    qed
  qed
qed

lemma getOrCreate_token:
  "t \<noteq> [] \<Longrightarrow>
   getOrCreateGuestProfile rnd email (Some t) name location w
     = getGuestProfileFromToken rnd t email name location w"
  by (simp add: getOrCreateGuestProfile_def)

lemma getGuestProfileFromToken_Inl:
  "loadGuestToken t w = (Inl err, w1) \<Longrightarrow>
   getGuestProfileFromToken rnd t email name location w = (Inl err, w1)"
  by (simp add: getGuestProfileFromToken_def await_def)

lemma getGuestProfileFromToken_confirmed:
  "loadGuestToken t w = (Inr p, w1) \<Longrightarrow> u_confirmedAt (user p) \<noteq> None \<Longrightarrow>
   getGuestProfileFromToken rnd t email name location w = (Inl (Error ALREADY_EXISTS_MSG), w1)"
  by (simp add: getGuestProfileFromToken_def await_def throw_def)

lemma getGuestProfileFromToken_other_email:
  "loadGuestToken t w = (Inr p, w1) \<Longrightarrow> u_confirmedAt (user p) = None \<Longrightarrow>
   truthy email \<Longrightarrow> Some (u_email (user p)) \<noteq> map_option trim email \<Longrightarrow>
   getGuestProfileFromToken rnd t email name location w
     = createGuestProfile rnd email name location w1"
  by (simp add: getGuestProfileFromToken_def await_def)

subsection \<open>The email of a confirmed user\<close>

text \<open>
  C6, as the code has it. The email of the request has no white space around it and is
  the email of a user, and every user with this email is confirmed. Then the request
  fails and leaves the tables as they were. The error is the "already exists, sign in"
  error when the request has no token and when its token resolves to a guest profile;
  when the token does not resolve, \<^verbatim>\<open>loadGuestToken\<close> has already thrown the
  "guest token is invalid" error.
\<close>

theorem confirmed_email_rejected:
  assumes ex: "\<exists>u \<in> set (Users w). u_email u = e"
    and conf: "\<forall>u \<in> set (Users w). u_email u = e \<longrightarrow> u_confirmedAt u \<noteq> None"
    and ne: "e \<noteq> []"
    and trimmed: "trim e = e"
  shows "\<exists>w'. getOrCreateGuestProfile rnd (Some e) tok name location w
            = (Inl (Error (case tok of
                             None \<Rightarrow> ALREADY_EXISTS_MSG
                           | Some t \<Rightarrow> if t = [] \<or> tokenResolves w t then ALREADY_EXISTS_MSG
                                      else INVALID_TOKEN_MSG)), w')
          \<and> sameRecords w w'"
proof -
  from ex have "find (\<lambda>u. u_email u = e) (Users w) \<noteq> None"
    by (simp add: find_None_iff) blast
  then obtain usr where f: "find (\<lambda>u. u_email u = e) (Users w) = Some usr" by blast
  from find_SomeD [OF f] conf have c: "u_confirmedAt usr \<noteq> None" by blast
  have create: "\<And>w0. Users w0 = Users w \<Longrightarrow>
      \<exists>w'. createGuestProfile rnd (Some e) name location w0
              = (Inl (Error ALREADY_EXISTS_MSG), w') \<and> sameRecords w0 w'"
  proof -
    fix w0 :: world
    assume "Users w0 = Users w"
    with f have "find (\<lambda>u. u_email u = e) (Users w0) = Some usr" by simp
    from createGuestProfile_confirmed [OF this c ne]
    show "\<exists>w'. createGuestProfile rnd (Some e) name location w0
              = (Inl (Error ALREADY_EXISTS_MSG), w') \<and> sameRecords w0 w'" .
  qed
  show ?thesis
  proof (cases "truthy tok")
    case False
    then have "(case tok of None \<Rightarrow> ALREADY_EXISTS_MSG
                | Some t \<Rightarrow> if t = [] \<or> tokenResolves w t then ALREADY_EXISTS_MSG
                           else INVALID_TOKEN_MSG) = ALREADY_EXISTS_MSG"
      by (cases tok) (simp_all add: truthy_def)
    with False create [of w] show ?thesis by (simp add: getOrCreate_no_token)
  next
    case True
    then obtain t where t: "tok = Some t" "t \<noteq> []" by (cases tok) (simp_all add: truthy_def)
    obtain r w1 where l: "loadGuestToken t w = (r, w1)" by (cases "loadGuestToken t w")
    show ?thesis
    proof (cases r)
      case (Inl err)
      with l loadGuestToken_Inl [of t w err w1]
      have err: "err = Error INVALID_TOKEN_MSG" and same: "sameRecords w w1" by simp_all
      have nores: "\<not> tokenResolves w t" using l Inl by (simp add: tokenResolves_def)
      have "getOrCreateGuestProfile rnd (Some e) tok name location w = (Inl err, w1)"
        using l Inl t by (simp add: getOrCreate_token getGuestProfileFromToken_Inl)
      with err same nores t show ?thesis by simp
    next
      case (Inr p)
      with l have lp: "loadGuestToken t w = (Inr p, w1)" by simp
      have res: "tokenResolves w t" using lp by (simp add: tokenResolves_def)
      from loadGuestToken_Inr [OF lp]
      have tabs: "Collectives w1 = Collectives w" "Users w1 = Users w"
        "GuestTokens w1 = GuestTokens w" "Transactions w1 = Transactions w"
        and mem: "user p \<in> set (Users w)" by simp_all
      show ?thesis
      proof (cases "u_confirmedAt (user p) = None")
        case False
        with lp t have "getOrCreateGuestProfile rnd (Some e) tok name location w
                         = (Inl (Error ALREADY_EXISTS_MSG), w1)"
          by (simp add: getOrCreate_token getGuestProfileFromToken_confirmed)
        with res t tabs show ?thesis by (simp add: sameRecords_def)
      next
        case True
        with mem conf have "u_email (user p) \<noteq> e" by blast
        then have diff: "Some (u_email (user p)) \<noteq> map_option trim (Some e)"
          using trimmed by simp
        have tr: "truthy (Some e)" using ne by (simp add: truthy_def)
        have eq: "getOrCreateGuestProfile rnd (Some e) tok name location w
                    = createGuestProfile rnd (Some e) name location w1"
          using t getGuestProfileFromToken_other_email [OF lp True tr diff]
          by (simp add: getOrCreate_token)
        from create [OF tabs(2)] obtain w' where
          "createGuestProfile rnd (Some e) name location w1
              = (Inl (Error ALREADY_EXISTS_MSG), w')" and "sameRecords w1 w'" by blast
        with eq res t tabs show ?thesis by (simp add: sameRecords_def)
      qed
    qed
  qed
qed

theorem confirmed_email_rejected_witness:
  "(\<exists>u \<in> set (Users exampleWorld). u_email u = ''eve@example.org'')
   \<and> list_all (\<lambda>u. u_email u = ''eve@example.org'' \<longrightarrow> u_confirmedAt u \<noteq> None)
         (Users exampleWorld)
   \<and> ''eve@example.org'' \<noteq> [] \<and> trim ''eve@example.org'' = ''eve@example.org''
   \<and> tokenResolves exampleWorld ''token-ada''
   \<and> (\<exists>w'. getOrCreateGuestProfile exampleRandom (Some ''eve@example.org'') (Some ''token-ada'')
               None None exampleWorld = (Inl (Error ALREADY_EXISTS_MSG), w')
          \<and> sameRecords exampleWorld w')
   \<and> (\<exists>w'. getOrCreateGuestProfile exampleRandom (Some ''eve@example.org'') None
               None None exampleWorld = (Inl (Error ALREADY_EXISTS_MSG), w')
          \<and> sameRecords exampleWorld w')"
proof -
  have h1: "\<exists>u \<in> set (Users exampleWorld). u_email u = ''eve@example.org''"
    by (simp add: exampleWorld_def userAda_def userBob_def userEve_def)
  have h2: "\<forall>u \<in> set (Users exampleWorld). u_email u = ''eve@example.org'' \<longrightarrow> u_confirmedAt u \<noteq> None"
    by (simp add: exampleWorld_def userAda_def userBob_def userEve_def)
  have h3: "''eve@example.org'' \<noteq> []" by simp
  have h4: "trim ''eve@example.org'' = ''eve@example.org''" by code_simp
  have h5: "tokenResolves exampleWorld ''token-ada''" by code_simp
  from confirmed_email_rejected [OF h1 h2 h3 h4, of exampleRandom "Some ''token-ada''" None None] h5
  have a: "\<exists>w'. getOrCreateGuestProfile exampleRandom (Some ''eve@example.org'') (Some ''token-ada'')
               None None exampleWorld = (Inl (Error ALREADY_EXISTS_MSG), w')
          \<and> sameRecords exampleWorld w'" by simp
  from confirmed_email_rejected [OF h1 h2 h3 h4, of exampleRandom None None None]
  have b: "\<exists>w'. getOrCreateGuestProfile exampleRandom (Some ''eve@example.org'') None
               None None exampleWorld = (Inl (Error ALREADY_EXISTS_MSG), w')
          \<and> sameRecords exampleWorld w'" by simp
  from h2 have h2': "list_all (\<lambda>u. u_email u = ''eve@example.org'' \<longrightarrow> u_confirmedAt u \<noteq> None)
                      (Users exampleWorld)"
    by (simp add: list_all_iff)
  from h1 h2' h3 h4 h5 a b show ?thesis by blast
qed

text \<open>
  C6 as stated fails: Eve is confirmed; a request with her email and a token that no guest
  token has the value of fails with the "guest token is invalid" error, which is not the
  "already exists, sign in" error.
\<close>

theorem confirmed_email_counterexample:
  "userEve \<in> set (Users exampleWorld) \<and> u_email userEve = ''eve@example.org''
   \<and> u_confirmedAt userEve = Some 100
   \<and> fst (getOrCreateGuestProfile exampleRandom (Some ''eve@example.org'')
            (Some ''token-nobody'') None None exampleWorld) = Inl (Error INVALID_TOKEN_MSG)
   \<and> Error INVALID_TOKEN_MSG \<noteq> Error ALREADY_EXISTS_MSG"
  by code_simp

subsection \<open>A token and an email\<close>

text \<open>
  C3 fails on the code. Ada's token resolves to her profile, and she has not confirmed.
  The email \<^verbatim>\<open>Ada@Example.org\<close> is her stored email up to letter case, so the claim has the
  request reuse her account. \<^verbatim>\<open>getGuestProfileFromToken\<close> tests
  \<^verbatim>\<open>user.email !== email.trim()\<close>, which trims and does not fold the case: the request is
  the call of \<^verbatim>\<open>createGuestProfile\<close> with the supplied email, whose first call to the
  database creates an account, and it does not return the profile of the token. With
  the email in the stored spelling the same request returns that profile after the two
  calls of \<^verbatim>\<open>loadGuestToken\<close>. The resolver of \<^verbatim>\<open>sendGuestConfirmationEmail\<close> finds the
  user of an email by \<^verbatim>\<open>trim().toLowerCase()\<close>.
\<close>

theorem token_email_case_sensitive:
  "fst (loadGuestToken ''token-ada'' exampleWorld)
     = Inr \<lparr>user = userAda, collective = guestCollective 1 ''guest-1a2b3c4d'' 1, token = tokenAda\<rparr>
   \<and> u_confirmedAt userAda = None
   \<and> toLowerCase (trim ''Ada@Example.org'') = toLowerCase (trim (u_email userAda))
   \<and> getOrCreateGuestProfile exampleRandom (Some ''Ada@Example.org'') (Some ''token-ada'')
         None None exampleWorld
       = createGuestProfile exampleRandom (Some ''Ada@Example.org'') None None
           (snd (loadGuestToken ''token-ada'' exampleWorld))
   \<and> take 3 (oplog (snd (getOrCreateGuestProfile exampleRandom (Some ''Ada@Example.org'')
                            (Some ''token-ada'') None None exampleWorld)))
       = [GuestToken_findOne ''token-ada'', User_findOne_CollectiveId 1,
          Collective_create ''guest-9b1deb4d'']
   \<and> fst (getOrCreateGuestProfile exampleRandom (Some ''Ada@Example.org'') (Some ''token-ada'')
            None None exampleWorld)
       \<noteq> Inr \<lparr>user = userAda, collective = guestCollective 1 ''guest-1a2b3c4d'' 1,
               token = tokenAda\<rparr>
   \<and> fst (getOrCreateGuestProfile exampleRandom (Some ''ada@example.org'') (Some ''token-ada'')
            None None exampleWorld)
       = Inr \<lparr>user = userAda, collective = guestCollective 1 ''guest-1a2b3c4d'' 1,
               token = tokenAda\<rparr>
   \<and> oplog (snd (getOrCreateGuestProfile exampleRandom (Some ''ada@example.org'')
                    (Some ''token-ada'') None None exampleWorld))
       = [GuestToken_findOne ''token-ada'', User_findOne_CollectiveId 1]"
  by code_simp

subsection \<open>The abandoned token\<close>

lemma find_append_Some: "find P xs = Some x \<Longrightarrow> find P (xs @ ys) = Some x"
  by (induction xs) (simp_all split: if_splits)

lemma find_append_None: "find P xs = None \<Longrightarrow> find P (xs @ ys) = find P ys"
  by (induction xs) (simp_all split: if_splits)

lemma liveCollective_extend:
  assumes "Collectives w' = Collectives w @ cs" and "\<forall>c \<in> set cs. c_id c \<noteq> i"
  shows "liveCollective w' i = liveCollective w i"
proof (cases "liveCollective w i")
  case None
  then have "find (\<lambda>c. c_id c = i \<and> c_deletedAt c = None) (Collectives w) = None"
    by (simp add: liveCollective_def)
  then have "liveCollective w' i = find (\<lambda>c. c_id c = i \<and> c_deletedAt c = None) cs"
    by (simp add: liveCollective_def assms(1) find_append_None)
  also have "\<dots> = None" using assms(2) by (simp add: find_None_iff) blast
  finally show ?thesis using None by simp
next
  case (Some c)
  then show ?thesis by (simp add: liveCollective_def assms(1) find_append_Some)
qed

lemma loadGuestToken_extend:
  assumes load: "fst (loadGuestToken tok w) = Inr p"
    and cs: "Collectives w' = Collectives w @ cs"
    and us: "Users w' = Users w @ us"
    and ts: "GuestTokens w' = GuestTokens w @ ts"
    and fresh: "\<forall>t \<in> set (GuestTokens w). \<forall>c \<in> set cs. c_id c \<noteq> gt_CollectiveId t"
  shows "fst (loadGuestToken tok w') = Inr p"
proof -
  from load have
    a: "find (tokenQuery w tok) (GuestTokens w) = Some (token p)"
    and b: "liveCollective w (gt_CollectiveId (token p)) = Some (collective p)"
    and c: "find (\<lambda>u. u_CollectiveId u = c_id (collective p)) (Users w) = Some (user p)"
    by (simp_all add: loadGuestToken_Inr_iff)
  have live: "\<And>t. t \<in> set (GuestTokens w) \<Longrightarrow>
                liveCollective w' (gt_CollectiveId t) = liveCollective w (gt_CollectiveId t)"
    using fresh by (intro liveCollective_extend [OF cs]) blast
  have "find (tokenQuery w' tok) (GuestTokens w) = find (tokenQuery w tok) (GuestTokens w)"
    by (rule find_cong) (simp_all add: tokenQuery_def live)
  with a have a': "find (tokenQuery w' tok) (GuestTokens w') = Some (token p)"
    by (simp add: ts find_append_Some)
  from find_SomeD [OF a] have "token p \<in> set (GuestTokens w)" by simp
  with b live have b': "liveCollective w' (gt_CollectiveId (token p)) = Some (collective p)"
    by simp
  from c have c': "find (\<lambda>u. u_CollectiveId u = c_id (collective p)) (Users w') = Some (user p)"
    by (simp add: us find_append_Some)
  from a' b' c' show ?thesis by (simp add: loadGuestToken_Inr_iff)
qed

lemma createGuestProfile_extends:
  assumes "createGuestProfile rnd email name location w = (r, w')"
  shows "\<exists>cs us ts. Collectives w' = Collectives w @ cs \<and> Users w' = Users w @ us
           \<and> GuestTokens w' = GuestTokens w @ ts
           \<and> (\<forall>c \<in> set cs. c_id c \<notin> set (map c_id (Collectives w)))"
proof (cases r)
  case (Inl err)
  with assms createGuestProfile_Inl [of rnd email name location w err w']
  have "sameRecords w w'" by simp
  then show ?thesis by (simp add: sameRecords_def)
next
  case (Inr q)
  with assms have run: "createGuestProfile rnd email name location w = (Inr q, w')" by simp
  from createGuestProfile_Inr [OF run] obtain e where
    c: "collective q = (newCollective rnd name location w)
                               \<lparr>c_CreatedByUserId := Some (u_id (user q))\<rparr>"
    and cs: "Collectives w' = Collectives w @ [collective q]"
    and ts: "GuestTokens w' = GuestTokens w @ [token q]"
    and us: "case find (\<lambda>u. u_email u = e) (Users w) of
                None \<Rightarrow> user q = newUser rnd e w \<and> Users w' = Users w @ [user q]
              | Some u \<Rightarrow> user q = u \<and> u_confirmedAt u = None \<and> Users w' = Users w"
    by blast
  have fresh: "c_id (collective q) \<notin> set (map c_id (Collectives w))"
    using nextId_notin [of "map c_id (Collectives w)"] by (simp add: c newCollective_def)
  have "\<exists>us. Users w' = Users w @ us"
    using us by (cases "find (\<lambda>u. u_email u = e) (Users w)") simp_all
  then obtain us where "Users w' = Users w @ us" by blast
  with cs ts fresh show ?thesis by simp
qed

text \<open>
  C10. A request has a token that resolves to a profile whose user is not confirmed, and
  an email that, trimmed, is not the email of that user. Whatever the outcome of the
  request, the rows that the tables held before are all there afterwards, unchanged and
  at their places (new rows come after them). The token resolves afterwards to the same
  account, user and guest token as before, in a database where every guest token refers
  to an account of the database, as the foreign key has it.
\<close>

theorem abandoned_token_untouched:
  assumes "loadGuestToken tokenValue w = (Inr p, w1)"
    and "tokenValue \<noteq> []"
    and "u_confirmedAt (user p) = None"
    and "e \<noteq> []"
    and "u_email (user p) \<noteq> trim e"
  shows "\<exists>r w'. getOrCreateGuestProfile rnd (Some e) (Some tokenValue) name location w = (r, w')
          \<and> take (length (Collectives w)) (Collectives w') = Collectives w
          \<and> take (length (Users w)) (Users w') = Users w
          \<and> take (length (GuestTokens w)) (GuestTokens w') = GuestTokens w
          \<and> ((\<forall>t \<in> set (GuestTokens w). gt_CollectiveId t \<in> set (map c_id (Collectives w)))
               \<longrightarrow> fst (loadGuestToken tokenValue w') = Inr p)"
proof -
  from loadGuestToken_Inr [OF assms(1)]
  have tabs: "Collectives w1 = Collectives w" "Users w1 = Users w"
    "GuestTokens w1 = GuestTokens w" by simp_all
  have tr: "truthy (Some e)" using assms(4) by (simp add: truthy_def)
  have ne: "Some (u_email (user p)) \<noteq> map_option trim (Some e)" using assms(5) by simp
  have eq: "getOrCreateGuestProfile rnd (Some e) (Some tokenValue) name location w
              = createGuestProfile rnd (Some e) name location w1"
    using getGuestProfileFromToken_other_email [OF assms(1) assms(3) tr ne] assms(2)
    by (simp add: getOrCreate_token)
  obtain r w' where run: "createGuestProfile rnd (Some e) name location w1 = (r, w')"
    by (cases "createGuestProfile rnd (Some e) name location w1")
  from createGuestProfile_extends [OF run] obtain cs us ts where
    cs: "Collectives w' = Collectives w @ cs" and us: "Users w' = Users w @ us"
    and ts: "GuestTokens w' = GuestTokens w @ ts"
    and fresh: "\<forall>c \<in> set cs. c_id c \<notin> set (map c_id (Collectives w))"
    unfolding tabs by blast
  have load: "fst (loadGuestToken tokenValue w') = Inr p"
    if fk: "\<forall>t \<in> set (GuestTokens w). gt_CollectiveId t \<in> set (map c_id (Collectives w))"
  proof -
    have sep: "\<forall>t \<in> set (GuestTokens w). \<forall>c \<in> set cs. c_id c \<noteq> gt_CollectiveId t"
      using fresh fk by metis
    have "fst (loadGuestToken tokenValue w) = Inr p" using assms(1) by simp
    from loadGuestToken_extend [OF this cs us ts sep] show ?thesis .
  qed
  show ?thesis
    using eq run cs us ts load by (intro exI [of _ r] exI [of _ w']) simp
qed

theorem abandoned_token_untouched_witness:
  "loadGuestToken ''token-ada'' exampleWorld
     = (Inr \<lparr>user = userAda, collective = guestCollective 1 ''guest-1a2b3c4d'' 1, token = tokenAda\<rparr>,
        exampleWorld\<lparr>oplog := [GuestToken_findOne ''token-ada'', User_findOne_CollectiveId 1]\<rparr>)
   \<and> ''token-ada'' \<noteq> [] \<and> u_confirmedAt userAda = None
   \<and> ''zoe@example.org'' \<noteq> [] \<and> u_email userAda \<noteq> trim ''zoe@example.org''
   \<and> list_all (\<lambda>t. gt_CollectiveId t \<in> set (map c_id (Collectives exampleWorld)))
         (GuestTokens exampleWorld)
   \<and> (\<exists>r w'. getOrCreateGuestProfile exampleRandom (Some ''zoe@example.org'')
                 (Some ''token-ada'') None None exampleWorld = (r, w')
          \<and> take 3 (Collectives w') = Collectives exampleWorld
          \<and> take 3 (Users w') = Users exampleWorld
          \<and> take 2 (GuestTokens w') = GuestTokens exampleWorld
          \<and> fst (loadGuestToken ''token-ada'' w')
              = Inr \<lparr>user = userAda, collective = guestCollective 1 ''guest-1a2b3c4d'' 1,
                     token = tokenAda\<rparr>)"
proof -
  have h1: "loadGuestToken ''token-ada'' exampleWorld
     = (Inr \<lparr>user = userAda, collective = guestCollective 1 ''guest-1a2b3c4d'' 1, token = tokenAda\<rparr>,
        exampleWorld\<lparr>oplog := [GuestToken_findOne ''token-ada'', User_findOne_CollectiveId 1]\<rparr>)"
    by code_simp
  have h2: "''token-ada'' \<noteq> []" by simp
  have h3: "u_confirmedAt userAda = None" by (simp add: userAda_def)
  have h4: "''zoe@example.org'' \<noteq> []" by simp
  have h5: "u_email userAda \<noteq> trim ''zoe@example.org''" by code_simp
  have h6: "\<forall>t \<in> set (GuestTokens exampleWorld).
         gt_CollectiveId t \<in> set (map c_id (Collectives exampleWorld))"
    by code_simp
  have l: "length (Collectives exampleWorld) = 3" "length (Users exampleWorld) = 3"
    "length (GuestTokens exampleWorld) = 2"
    by (simp_all add: exampleWorld_def)
  from abandoned_token_untouched [of "''token-ada''" exampleWorld _ _ "''zoe@example.org''"
      exampleRandom None None, OF h1 h2] h3 h4 h5 h6 l
  have "\<exists>r w'. getOrCreateGuestProfile exampleRandom (Some ''zoe@example.org'')
                 (Some ''token-ada'') None None exampleWorld = (r, w')
          \<and> take 3 (Collectives w') = Collectives exampleWorld
          \<and> take 3 (Users w') = Users exampleWorld
          \<and> take 2 (GuestTokens w') = GuestTokens exampleWorld
          \<and> fst (loadGuestToken ''token-ada'' w')
              = Inr \<lparr>user = userAda, collective = guestCollective 1 ''guest-1a2b3c4d'' 1,
                     token = tokenAda\<rparr>"
    by simp
  moreover from h6
  have "list_all (\<lambda>t. gt_CollectiveId t \<in> set (map c_id (Collectives exampleWorld)))
          (GuestTokens exampleWorld)"
    by (simp add: list_all_iff)
  ultimately show ?thesis using h1 h2 h3 h4 h5 by blast
qed

subsection \<open>Confirming a guest account\<close>

lemma map_keeps: "x \<in> set xs \<Longrightarrow> g x = x \<Longrightarrow> x \<in> set (map g xs)"
  using image_eqI [of x g x "set xs"] by simp

lemma mergeCollectives_run:
  "mergeCollectives now from into w =
     (Inr (),
      w\<lparr>Transactions :=
           map (\<lambda>t. t\<lparr>t_FromCollectiveId :=
                         (if t_FromCollectiveId t = c_id from then c_id into
                          else t_FromCollectiveId t),
                       t_CollectiveId :=
                         (if t_CollectiveId t = c_id from then c_id into
                          else t_CollectiveId t)\<rparr>) (Transactions w),
         Collectives :=
           map (\<lambda>c. if c_id c = c_id from \<and> c_deletedAt c = None
                    then c\<lparr>c_deletedAt := Some now\<rparr> else c) (Collectives w),
         oplog := oplog w @ [MergeCollectives (c_id from) (c_id into)]\<rparr>)"
  by (simp add: mergeCollectives_def logged_def)

lemma mergeAll_keeps:
  assumes "x \<in> set (Collectives w)" and "\<forall>tc \<in> set found. c_id (snd tc) \<noteq> c_id x"
  shows "\<exists>w'. mergeAll now found into w = (Inr (), w') \<and> x \<in> set (Collectives w')
           \<and> Users w' = Users w \<and> GuestTokens w' = GuestTokens w"
  using assms
proof (induction found arbitrary: w)
  case Nil
  then show ?case by (simp add: ret_def)
next
  case (Cons tc found)
  obtain w1 where step: "mergeCollectives now (snd tc) into w = (Inr (), w1)"
    and cs: "Collectives w1 =
           map (\<lambda>c. if c_id c = c_id (snd tc) \<and> c_deletedAt c = None
                    then c\<lparr>c_deletedAt := Some now\<rparr> else c) (Collectives w)"
    and same: "Users w1 = Users w" "GuestTokens w1 = GuestTokens w"
    by (simp add: mergeCollectives_run)
  from Cons.prems(2) have ne: "c_id (snd tc) \<noteq> c_id x" by simp
  have keep: "x \<in> set (Collectives w1)"
    unfolding cs using Cons.prems(1) by (rule map_keeps) (use ne in auto)
  from Cons.prems(2) have rest: "\<forall>tc \<in> set found. c_id (snd tc) \<noteq> c_id x" by simp
  from Cons.IH [OF keep rest] obtain w' where
    run: "mergeAll now found into w1 = (Inr (), w')" and x: "x \<in> set (Collectives w')"
    and same': "Users w' = Users w1" "GuestTokens w' = GuestTokens w1" by blast
  have "mergeAll now (tc # found) into w = (Inr (), w')"
    by (simp add: await_def step run)
  with x same same' show ?case by simp
qed

lemma findAll_row:
  assumes "tc \<in> set (if gt_value t \<in> set vals \<and> gt_deletedAt t = None
                    then (case liveCollective w (gt_CollectiveId t) of
                            None \<Rightarrow> []
                          | Some c \<Rightarrow>
                              if c_id c \<noteq> notId \<and> map_of (c_data c) ''isGuest'' = Some (JBool True)
                              then [(t, c)] else [])
                    else [])"
  shows "c_id (snd tc) \<noteq> notId"
proof (cases "liveCollective w (gt_CollectiveId t)")
  case None
  with assms show ?thesis by (cases "gt_value t \<in> set vals \<and> gt_deletedAt t = None") simp_all
next
  case (Some c)
  show ?thesis
  proof (cases "gt_value t \<in> set vals \<and> gt_deletedAt t = None")
    case False
    with assms show ?thesis by simp
  next
    case sel: True
    show ?thesis
    proof (cases "c_id c \<noteq> notId \<and> map_of (c_data c) ''isGuest'' = Some (JBool True)")
      case False
      with assms Some sel show ?thesis by simp
    next
      case True
      with assms Some sel have "tc = (t, c)" by simp
      with True show ?thesis by simp
    qed
  qed
qed

lemma findAll_other_accounts:
  assumes "models_GuestToken_findAll vals notId w = (r, w')"
  shows "\<exists>found. r = Inr found \<and> (\<forall>tc \<in> set found. c_id (snd tc) \<noteq> notId)
           \<and> Collectives w' = Collectives w \<and> Users w' = Users w
           \<and> GuestTokens w' = GuestTokens w"
proof -
  let ?row = "\<lambda>t. if gt_value t \<in> set vals \<and> gt_deletedAt t = None
                    then (case liveCollective w (gt_CollectiveId t) of
                            None \<Rightarrow> []
                          | Some c \<Rightarrow>
                              if c_id c \<noteq> notId \<and> map_of (c_data c) ''isGuest'' = Some (JBool True)
                              then [(t, c)] else [])
                    else []"
  let ?found = "concat (map ?row (GuestTokens w))"
  from assms have r: "r = Inr ?found" and w': "w' = logged (GuestToken_findAll vals notId) w"
    unfolding models_GuestToken_findAll_def by simp_all
  have other: "\<forall>tc \<in> set ?found. c_id (snd tc) \<noteq> notId"
  proof
    fix tc assume "tc \<in> set ?found"
    then obtain t where "tc \<in> set (?row t)" unfolding set_concat set_map by blast
    then show "c_id (snd tc) \<noteq> notId" by (rule findAll_row)
  qed
  have tabs: "Collectives w' = Collectives w" "Users w' = Users w" "GuestTokens w' = GuestTokens w"
    by (simp_all add: w' logged_def)
  from r other tabs show ?thesis by blast
qed

lemma linkGuestProfiles_keeps:
  assumes "c1 \<in> set (Collectives w)"
  shows "\<exists>ids w'. linkGuestProfiles now gts c1 w = (Inr ids, w') \<and> c1 \<in> set (Collectives w')
           \<and> Users w' = Users w \<and> GuestTokens w' = GuestTokens w"
proof (cases gts)
  case None
  with assms show ?thesis by (simp add: linkGuestProfiles_def ret_def)
next
  case (Some vals)
  show ?thesis
  proof (cases "vals = []")
    case True
    with Some assms show ?thesis by (simp add: linkGuestProfiles_def ret_def)
  next
    case ne: False
    obtain r w1 where fa: "models_GuestToken_findAll vals (c_id c1) w = (r, w1)"
      by (cases "models_GuestToken_findAll vals (c_id c1) w")
    from findAll_other_accounts [OF fa] obtain found where
      r: "r = Inr found" and other: "\<forall>tc \<in> set found. c_id (snd tc) \<noteq> c_id c1"
      and tabs: "Collectives w1 = Collectives w" "Users w1 = Users w"
        "GuestTokens w1 = GuestTokens w"
      by blast
    have fa': "models_GuestToken_findAll vals (c_id c1) w = (Inr found, w1)"
      using fa r by simp
    show ?thesis
    proof (cases "found = []")
      case True
      have "linkGuestProfiles now gts c1 w = (Inr [c_id c1], w1)"
        by (simp add: linkGuestProfiles_def await_def ret_def Some ne fa' True)
      with tabs assms show ?thesis by simp
    next
      case False
      from assms tabs have "c1 \<in> set (Collectives w1)" by simp
      from mergeAll_keeps [OF this other, of now c1] obtain w2 where
        m: "mergeAll now found c1 w1 = (Inr (), w2)" and x: "c1 \<in> set (Collectives w2)"
        and same: "Users w2 = Users w1" "GuestTokens w2 = GuestTokens w1" by blast
      have "linkGuestProfiles now gts c1 w
              = (Inr (c_id c1 # map (\<lambda>tc. gt_CollectiveId (fst tc)) found), w2)"
        by (simp add: linkGuestProfiles_def await_def ret_def Some ne fa' False m)
      with x same tabs show ?thesis by simp
    qed
  qed
qed

lemma await_Inr: "m w = (Inr x, w1) \<Longrightarrow> await m k w = k x w1"
  by (simp add: await_def)

lemma confirmGuestAccount_run:
  assumes "find (\<lambda>u. u_emailConfirmationToken u = Some tok) (Users w) = Some usr"
    and "u_confirmedAt usr = None"
    and "liveCollective w (u_CollectiveId usr) = Some c0"
  shows "confirmGuestAccount gen now tok name gts w =
     await (linkGuestProfiles now gts (confirmFields gen name w c0 c0)) (\<lambda>allCollectiveIds.
       await (models_GuestToken_destroy now allCollectiveIds) (\<lambda>_.
         ret (confirmFields gen name w c0 c0)))
       (w\<lparr>Users := map (\<lambda>r. if u_id r = u_id usr
                             then r\<lparr>u_emailConfirmationToken := None,
                                    u_confirmedAt := Some now\<rparr> else r) (Users w),
          Collectives := map (\<lambda>r. if c_id r = c_id c0
                                   then confirmFields gen name w c0 r else r)
                           (Collectives w),
          oplog := oplog w @
            [User_findOne_emailConfirmationToken tok, User_update (u_id usr),
             User_getCollective (u_id usr),
             Collective_generateSlug [confirmedName name c0],
             Collective_update (c_id c0)]\<rparr>)"
proof -
  let ?w1 = "w\<lparr>oplog := oplog w @ [User_findOne_emailConfirmationToken tok]\<rparr>"
  let ?usr' = "usr\<lparr>u_emailConfirmationToken := None, u_confirmedAt := Some now\<rparr>"
  let ?w2 = "w\<lparr>Users := map (\<lambda>r. if u_id r = u_id usr
                             then r\<lparr>u_emailConfirmationToken := None,
                                    u_confirmedAt := Some now\<rparr> else r) (Users w),
               oplog := oplog w @ [User_findOne_emailConfirmationToken tok,
                                   User_update (u_id usr)]\<rparr>"
  let ?w3 = "w\<lparr>Users := map (\<lambda>r. if u_id r = u_id usr
                             then r\<lparr>u_emailConfirmationToken := None,
                                    u_confirmedAt := Some now\<rparr> else r) (Users w),
               oplog := oplog w @ [User_findOne_emailConfirmationToken tok,
                                   User_update (u_id usr), User_getCollective (u_id usr)]\<rparr>"
  let ?w4 = "w\<lparr>Users := map (\<lambda>r. if u_id r = u_id usr
                             then r\<lparr>u_emailConfirmationToken := None,
                                    u_confirmedAt := Some now\<rparr> else r) (Users w),
               oplog := oplog w @ [User_findOne_emailConfirmationToken tok,
                                   User_update (u_id usr), User_getCollective (u_id usr),
                                   Collective_generateSlug [confirmedName name c0]]\<rparr>"
  have s1: "models_User_findOne (User_findOne_emailConfirmationToken tok)
              (\<lambda>u. u_emailConfirmationToken u = Some tok) w = (Inr (Some usr), ?w1)"
    by (simp add: models_User_findOne_def logged_def assms(1))
  have s2: "instance_update_User usr
              (\<lambda>u. u\<lparr>u_emailConfirmationToken := None, u_confirmedAt := Some now\<rparr>) ?w1
            = (Inr ?usr', ?w2)"
    by (simp add: instance_update_User_def logged_def)
  have s3: "models_User_getCollective ?usr' ?w2 = (Inr (Some c0), ?w3)"
    using assms(3) by (simp add: models_User_getCollective_def logged_def liveCollective_def)
  have nm: "(case name of None \<Rightarrow> if c_name c0 \<noteq> DEFAULT_GUEST_NAME then c_name c0 else ''Incognito''
             | Some n \<Rightarrow> n) = confirmedName name c0"
    by (cases name) (simp_all add: confirmedName_def DEFAULT_GUEST_NAME_def)
  have s4: "models_Collective_generateSlug gen [confirmedName name c0] ?w3
            = (Inr (gen [confirmedName name c0] (Collectives w)), ?w4)"
    by (simp add: models_Collective_generateSlug_def logged_def)
  have s5: "instance_update_Collective c0
              (\<lambda>c. c\<lparr>c_name := confirmedName name c0,
                     c_slug := gen [confirmedName name c0] (Collectives w),
                     c_data := AList.update ''isGuest'' (JBool False) (c_data c0)\<rparr>) ?w4
            = (Inr (confirmFields gen name w c0 c0),
               w\<lparr>Users := map (\<lambda>r. if u_id r = u_id usr
                             then r\<lparr>u_emailConfirmationToken := None,
                                    u_confirmedAt := Some now\<rparr> else r) (Users w),
                  Collectives := map (\<lambda>r. if c_id r = c_id c0
                                   then confirmFields gen name w c0 r else r)
                           (Collectives w),
                  oplog := oplog w @
                    [User_findOne_emailConfirmationToken tok, User_update (u_id usr),
                     User_getCollective (u_id usr),
                     Collective_generateSlug [confirmedName name c0],
                     Collective_update (c_id c0)]\<rparr>)"
    by (simp add: instance_update_Collective_def logged_def confirmFields_def)
  show ?thesis
    unfolding confirmGuestAccount_def
    by (simp add: await_def s1 s2 s3 s4 s5 nm Let_def assms(2) split del: if_split)
qed

lemma confirmGuestAccount_Inr:
  assumes "confirmGuestAccount gen now tok name gts w = (Inr c, w')"
  shows "\<exists>usr c0. find (\<lambda>u. u_emailConfirmationToken u = Some tok) (Users w) = Some usr
           \<and> u_confirmedAt usr = None
           \<and> liveCollective w (u_CollectiveId usr) = Some c0"
proof (cases "find (\<lambda>u. u_emailConfirmationToken u = Some tok) (Users w)")
  case None
  have "models_User_findOne (User_findOne_emailConfirmationToken tok)
              (\<lambda>u. u_emailConfirmationToken u = Some tok) w
          = (Inr None, w\<lparr>oplog := oplog w @ [User_findOne_emailConfirmationToken tok]\<rparr>)"
    by (simp add: models_User_findOne_def logged_def None)
  then have "fst (confirmGuestAccount gen now tok name gts w)
               = Inl (InvalidToken ''Invalid email confirmation token'')"
    unfolding confirmGuestAccount_def by (simp add: await_def throw_def split del: if_split)
  with assms show ?thesis by simp
next
  case (Some usr)
  have s1: "models_User_findOne (User_findOne_emailConfirmationToken tok)
              (\<lambda>u. u_emailConfirmationToken u = Some tok) w
          = (Inr (Some usr), w\<lparr>oplog := oplog w @ [User_findOne_emailConfirmationToken tok]\<rparr>)"
    by (simp add: models_User_findOne_def logged_def Some)
  show ?thesis
  proof (cases "u_confirmedAt usr = None")
    case False
    with s1 have "fst (confirmGuestAccount gen now tok name gts w)
               = Inl (BadRequest ''This account has already been verified'')"
      unfolding confirmGuestAccount_def by (simp add: await_def throw_def split del: if_split)
    with assms show ?thesis by simp
  next
    case unconf: True
    show ?thesis
    proof (cases "liveCollective w (u_CollectiveId usr)")
      case None
      let ?usr' = "usr\<lparr>u_emailConfirmationToken := None, u_confirmedAt := Some now\<rparr>"
      let ?w1 = "w\<lparr>oplog := oplog w @ [User_findOne_emailConfirmationToken tok]\<rparr>"
      let ?w2 = "w\<lparr>Users := map (\<lambda>r. if u_id r = u_id usr
                             then r\<lparr>u_emailConfirmationToken := None,
                                    u_confirmedAt := Some now\<rparr> else r) (Users w),
               oplog := oplog w @ [User_findOne_emailConfirmationToken tok,
                                   User_update (u_id usr)]\<rparr>"
      have s2: "instance_update_User usr
              (\<lambda>u. u\<lparr>u_emailConfirmationToken := None, u_confirmedAt := Some now\<rparr>) ?w1
            = (Inr ?usr', ?w2)"
        by (simp add: instance_update_User_def logged_def)
      have s3: "fst (models_User_getCollective ?usr' ?w2) = Inr None"
        using None by (simp add: models_User_getCollective_def liveCollective_def)
      obtain w3 where s3': "models_User_getCollective ?usr' ?w2 = (Inr None, w3)"
        using s3 by (cases "models_User_getCollective ?usr' ?w2") simp
      have "fst (confirmGuestAccount gen now tok name gts w)
               = Inl (TypeError ''Cannot read property 'name' of null'')"
        unfolding confirmGuestAccount_def
        by (simp add: await_def throw_def s1 s2 s3' unconf split del: if_split)
      with assms show ?thesis by simp
    next
      case (Some c0)
      with \<open>find (\<lambda>u. u_emailConfirmationToken u = Some tok) (Users w) = Some usr\<close> unconf
      show ?thesis by simp
    qed
  qed
qed

lemma update_other_keys:
  "k \<noteq> k' \<Longrightarrow> map_of (AList.update k' v al) k = map_of al k"
  by (simp add: update_conv')

lemma update_this_key: "map_of (AList.update k v al) k = Some v"
  by (simp add: update_conv')

text \<open>
  C5. When \<^verbatim>\<open>confirmGuestAccount\<close> succeeds, the confirmation token was the token of a
  user who was not confirmed, and the account it returns is the account of that user
  with: the supplied name when a name is supplied, else the name it had when that name
  is not "Guest", else "Incognito"; \<^verbatim>\<open>isGuest\<close> false in its metadata; every other key
  of the metadata with the value it had. The account is in the table in this form.
\<close>

theorem confirm_name_and_metadata:
  assumes "confirmGuestAccount gen now tok name gts w = (Inr c, w')"
  shows "\<exists>usr c0.
           find (\<lambda>u. u_emailConfirmationToken u = Some tok) (Users w) = Some usr
         \<and> u_confirmedAt usr = None
         \<and> liveCollective w (u_CollectiveId usr) = Some c0
         \<and> c_id c = c_id c0
         \<and> c_name c = (case name of
                         Some n \<Rightarrow> n
                       | None \<Rightarrow> if c_name c0 \<noteq> ''Guest'' then c_name c0 else ''Incognito'')
         \<and> map_of (c_data c) ''isGuest'' = Some (JBool False)
         \<and> (\<forall>k. k \<noteq> ''isGuest'' \<longrightarrow> map_of (c_data c) k = map_of (c_data c0) k)
         \<and> c \<in> set (Collectives w')"
proof -
  from confirmGuestAccount_Inr [OF assms] obtain usr c0 where
    f: "find (\<lambda>u. u_emailConfirmationToken u = Some tok) (Users w) = Some usr"
    and unconf: "u_confirmedAt usr = None"
    and c0: "liveCollective w (u_CollectiveId usr) = Some c0" by blast
  let ?c1 = "confirmFields gen name w c0 c0"
  let ?g = "\<lambda>r. if c_id r = c_id c0 then confirmFields gen name w c0 r else r"
  let ?w3 = "w\<lparr>Users := map (\<lambda>r. if u_id r = u_id usr
                             then r\<lparr>u_emailConfirmationToken := None,
                                    u_confirmedAt := Some now\<rparr> else r) (Users w),
          Collectives := map ?g (Collectives w),
          oplog := oplog w @
            [User_findOne_emailConfirmationToken tok, User_update (u_id usr),
             User_getCollective (u_id usr),
             Collective_generateSlug [confirmedName name c0],
             Collective_update (c_id c0)]\<rparr>"
  from c0 have "c0 \<in> set (Collectives w)"
    using find_SomeD [of _ "Collectives w" c0] by (simp add: liveCollective_def)
  then have "?g c0 \<in> ?g ` set (Collectives w)" by (rule imageI)
  then have "?c1 \<in> set (Collectives ?w3)" by simp
  from linkGuestProfiles_keeps [OF this, of now gts] obtain ids w4 where
    link: "linkGuestProfiles now gts ?c1 ?w3 = (Inr ids, w4)"
    and kept: "?c1 \<in> set (Collectives w4)" by blast
  obtain w5 where d: "models_GuestToken_destroy now ids w4 = (Inr (), w5)"
    and d': "Collectives w5 = Collectives w4"
    by (simp add: models_GuestToken_destroy_def logged_def)
  have "confirmGuestAccount gen now tok name gts w = (Inr ?c1, w5)"
    unfolding confirmGuestAccount_run [OF f unconf c0]
    by (simp add: await_def ret_def link d)
  with assms have c: "c = ?c1" and w': "w' = w5" by simp_all
  have name: "c_name ?c1 = (case name of
                         Some n \<Rightarrow> n
                       | None \<Rightarrow> if c_name c0 \<noteq> ''Guest'' then c_name c0 else ''Incognito'')"
    by (simp add: confirmFields_def confirmedName_def)
  have flag: "map_of (c_data ?c1) ''isGuest'' = Some (JBool False)"
    by (simp add: confirmFields_def update_this_key)
  have keys: "\<forall>k. k \<noteq> ''isGuest'' \<longrightarrow> map_of (c_data ?c1) k = map_of (c_data c0) k"
    by (simp add: confirmFields_def update_other_keys)
  have id: "c_id ?c1 = c_id c0" by (simp add: confirmFields_def)
  have mem: "?c1 \<in> set (Collectives w5)" using kept d' by simp
  from f unconf c0 id name flag keys mem show ?thesis
    unfolding c w' by blast
qed

theorem confirm_name_and_metadata_witness:
  "confirmGuestAccount exampleSlug 7 ''confirm-ada'' None (Some [''token-bob'']) exampleWorld
     = (Inr adaConfirmed,
        snd (confirmGuestAccount exampleSlug 7 ''confirm-ada'' None (Some [''token-bob''])
               exampleWorld))
   \<and> c_name adaConfirmed = ''Incognito''
   \<and> map_of (c_data adaConfirmed) ''isGuest'' = Some (JBool False)
   \<and> adaConfirmed \<in> set (Collectives (snd (confirmGuestAccount exampleSlug 7 ''confirm-ada''
                                                None (Some [''token-bob'']) exampleWorld)))"
proof -
  let ?run = "confirmGuestAccount exampleSlug 7 ''confirm-ada'' None (Some [''token-bob''])
                exampleWorld"
  have f: "fst ?run = Inr adaConfirmed" by code_simp
  then have h: "?run = (Inr adaConfirmed, snd ?run)" by (simp add: prod_eq_iff)
  from confirm_name_and_metadata [OF h] have
    flag: "map_of (c_data adaConfirmed) ''isGuest'' = Some (JBool False)"
    and mem: "adaConfirmed \<in> set (Collectives (snd ?run))" by blast+
  have nm: "c_name adaConfirmed = ''Incognito''" by (simp add: adaConfirmed_def)
  from h nm flag mem show ?thesis by blast
qed

subsection \<open>Asking for the confirmation email\<close>

lemma registerCall_run:
  "registerCall key limit 60 now w =
     (if limitReached now key limit w
      then (Inr False, w\<lparr>oplog := oplog w @ [RateLimit_registerCall key]\<rparr>)
      else (Inr True,
            w\<lparr>rateLimits :=
                 AList.update key (fst (currentWindow now 60 key (rateLimits w)),
                                   Suc (snd (currentWindow now 60 key (rateLimits w))))
                   (rateLimits w),
               oplog := oplog w @ [RateLimit_registerCall key]\<rparr>))"
  by (cases "currentWindow now 60 key (rateLimits w)")
     (simp add: registerCall_def limitReached_def logged_def)

lemma keys_differ: "ipKey req \<noteq> emailKey email"
  by (simp add: ipKey_def emailKey_def)

lemma ipKey_inject: "ipKey req = ipKey req' \<longleftrightarrow> ip req = ip req'"
  by (simp add: ipKey_def)

lemma limitReached_other_key:
  assumes "key' \<noteq> key"
  shows "limitReached now key' limit (w\<lparr>rateLimits := AList.update key v (rateLimits w), oplog := l\<rparr>)
           = limitReached now key' limit w"
  using assms by (simp add: limitReached_def currentWindow_def update_conv')

text \<open>
  C7. A caller who is not signed in asks for the confirmation email. The first call that
  leaves the resolver is \<^verbatim>\<open>registerCall\<close> on the key of the caller's IP. When that
  quota is used up the resolver fails with \<^verbatim>\<open>RateLimitExceeded\<close> and this is the only
  call. Otherwise the second call is \<^verbatim>\<open>registerCall\<close> on the key of the email,
  trimmed and in lower case; when that quota is used up the resolver fails with
  \<^verbatim>\<open>RateLimitExceeded\<close>, and these are the only two calls. In both failures the tables
  and the outbox are untouched. Only when both quotas admit the call does the third call
  follow, which looks the user up by the trimmed, lower-case email.
\<close>

theorem rate_limits_before_lookup:
  assumes "remoteUser req = None"
  shows "(limitReached now (ipKey req) (confirmGuestEmailPerMinutePerIp config) w \<longrightarrow>
            sendGuestConfirmationEmail_resolve config now args_email req w
              = (Inl (RateLimitExceeded IP_LIMIT_MSG),
                 w\<lparr>oplog := oplog w @ [RateLimit_registerCall (ipKey req)]\<rparr>))
       \<and> (\<not> limitReached now (ipKey req) (confirmGuestEmailPerMinutePerIp config) w
          \<and> limitReached now (emailKey (toLowerCase (trim args_email)))
               (confirmGuestEmailPerMinute config) w \<longrightarrow>
            (\<exists>w'. sendGuestConfirmationEmail_resolve config now args_email req w
                     = (Inl (RateLimitExceeded EMAIL_LIMIT_MSG), w')
                  \<and> oplog w' = oplog w @
                       [RateLimit_registerCall (ipKey req),
                        RateLimit_registerCall (emailKey (toLowerCase (trim args_email)))]
                  \<and> sameRecords w w' \<and> outbox w' = outbox w))
       \<and> (\<not> limitReached now (ipKey req) (confirmGuestEmailPerMinutePerIp config) w
          \<and> \<not> limitReached now (emailKey (toLowerCase (trim args_email)))
                 (confirmGuestEmailPerMinute config) w \<longrightarrow>
            (\<exists>r w' rest. sendGuestConfirmationEmail_resolve config now args_email req w = (r, w')
                  \<and> oplog w' = oplog w @
                       [RateLimit_registerCall (ipKey req),
                        RateLimit_registerCall (emailKey (toLowerCase (trim args_email))),
                        User_findOne_email (toLowerCase (trim args_email))] @ rest))"
proof (intro conjI impI)
  let ?limIp = "confirmGuestEmailPerMinutePerIp config"
  let ?limEmail = "confirmGuestEmailPerMinute config"
  let ?e = "toLowerCase (trim args_email)"
  assume "limitReached now (ipKey req) ?limIp w"
  then have r1: "registerCall (ipKey req) ?limIp 60 now w
                   = (Inr False, w\<lparr>oplog := oplog w @ [RateLimit_registerCall (ipKey req)]\<rparr>)"
    by (simp add: registerCall_run)
  show "sendGuestConfirmationEmail_resolve config now args_email req w
              = (Inl (RateLimitExceeded IP_LIMIT_MSG),
                 w\<lparr>oplog := oplog w @ [RateLimit_registerCall (ipKey req)]\<rparr>)"
    unfolding sendGuestConfirmationEmail_resolve_def
    by (simp add: assms await_def r1 throw_def split del: if_split)
next
  let ?limIp = "confirmGuestEmailPerMinutePerIp config"
  let ?limEmail = "confirmGuestEmailPerMinute config"
  let ?e = "toLowerCase (trim args_email)"
  let ?w1 = "w\<lparr>rateLimits :=
                 AList.update (ipKey req)
                   (fst (currentWindow now 60 (ipKey req) (rateLimits w)),
                    Suc (snd (currentWindow now 60 (ipKey req) (rateLimits w))))
                   (rateLimits w),
               oplog := oplog w @ [RateLimit_registerCall (ipKey req)]\<rparr>"
  assume a: "\<not> limitReached now (ipKey req) ?limIp w \<and> limitReached now (emailKey ?e) ?limEmail w"
  then have r1: "registerCall (ipKey req) ?limIp 60 now w = (Inr True, ?w1)"
    by (simp add: registerCall_run)
  have "limitReached now (emailKey ?e) ?limEmail ?w1"
    using a keys_differ [of req ?e] by (simp add: limitReached_other_key)
  then have r2: "registerCall (emailKey ?e) ?limEmail 60 now ?w1
                   = (Inr False, ?w1\<lparr>oplog := oplog ?w1 @ [RateLimit_registerCall (emailKey ?e)]\<rparr>)"
    by (simp only: registerCall_run if_True)
  have res: "sendGuestConfirmationEmail_resolve config now args_email req w
          = (Inl (RateLimitExceeded EMAIL_LIMIT_MSG),
             ?w1\<lparr>oplog := oplog ?w1 @ [RateLimit_registerCall (emailKey ?e)]\<rparr>)"
    unfolding sendGuestConfirmationEmail_resolve_def
    by (simp add: assms await_def r1 r2 throw_def Let_def split del: if_split)
  show "\<exists>w'. sendGuestConfirmationEmail_resolve config now args_email req w
                     = (Inl (RateLimitExceeded EMAIL_LIMIT_MSG), w')
                  \<and> oplog w' = oplog w @
                       [RateLimit_registerCall (ipKey req), RateLimit_registerCall (emailKey ?e)]
                  \<and> sameRecords w w' \<and> outbox w' = outbox w"
    unfolding res by (simp add: sameRecords_def)
next
  let ?limIp = "confirmGuestEmailPerMinutePerIp config"
  let ?limEmail = "confirmGuestEmailPerMinute config"
  let ?e = "toLowerCase (trim args_email)"
  let ?w1 = "w\<lparr>rateLimits :=
                 AList.update (ipKey req)
                   (fst (currentWindow now 60 (ipKey req) (rateLimits w)),
                    Suc (snd (currentWindow now 60 (ipKey req) (rateLimits w))))
                   (rateLimits w),
               oplog := oplog w @ [RateLimit_registerCall (ipKey req)]\<rparr>"
  assume a: "\<not> limitReached now (ipKey req) ?limIp w
             \<and> \<not> limitReached now (emailKey ?e) ?limEmail w"
  then have r1: "registerCall (ipKey req) ?limIp 60 now w = (Inr True, ?w1)"
    by (simp add: registerCall_run)
  have n2: "\<not> limitReached now (emailKey ?e) ?limEmail ?w1"
    using a keys_differ [of req ?e] by (simp add: limitReached_other_key)
  obtain w2 where r2: "registerCall (emailKey ?e) ?limEmail 60 now ?w1 = (Inr True, w2)"
    and l2: "oplog w2 = oplog w @ [RateLimit_registerCall (ipKey req),
                                   RateLimit_registerCall (emailKey ?e)]"
    using n2 by (simp add: registerCall_run)
  let ?P = "\<lambda>u. u_email u = ?e \<and> liveCollective w2 (u_CollectiveId u) \<noteq> None"
  let ?w3 = "w2\<lparr>oplog := oplog w2 @ [User_findOne_email ?e]\<rparr>"
  have s3: "models_User_findOne (User_findOne_email ?e) ?P w2 = (Inr (find ?P (Users w2)), ?w3)"
    by (simp add: models_User_findOne_def logged_def)
  have l3: "oplog ?w3 = oplog w @ [RateLimit_registerCall (ipKey req),
                                  RateLimit_registerCall (emailKey ?e),
                                  User_findOne_email ?e]"
    by (simp add: l2)
  show "\<exists>r w' rest. sendGuestConfirmationEmail_resolve config now args_email req w = (r, w')
                  \<and> oplog w' = oplog w @
                       [RateLimit_registerCall (ipKey req), RateLimit_registerCall (emailKey ?e),
                        User_findOne_email ?e] @ rest"
  proof (cases "find ?P (Users w2)")
    case None
    have res: "sendGuestConfirmationEmail_resolve config now args_email req w
            = (Inl (NotFound ''No user found for this email address''), ?w3)"
      unfolding sendGuestConfirmationEmail_resolve_def
      by (simp add: assms await_def r1 r2 s3 None throw_def Let_def del: not_None_eq split del: if_split)
    show ?thesis
      by (rule exI [of _ "Inl (NotFound ''No user found for this email address'')"],
          rule exI [of _ ?w3], rule exI [of _ "[]"]) (simp add: res l2)
  next
    case (Some usr)
    show ?thesis
    proof (cases "u_confirmedAt usr = None")
      case False
      have res: "sendGuestConfirmationEmail_resolve config now args_email req w
              = (Inl (BadRequest ''This account has already been confirmed''), ?w3)"
        unfolding sendGuestConfirmationEmail_resolve_def
        using False
        by (simp add: assms await_def r1 r2 s3 Some throw_def Let_def del: not_None_eq split del: if_split)
      show ?thesis
        by (rule exI [of _ "Inl (BadRequest ''This account has already been confirmed'')"],
            rule exI [of _ ?w3], rule exI [of _ "[]"]) (simp add: res l2)
    next
      case True
      let ?m = "\<lparr>m_template = ''confirm-guest-account'', m_recipient = u_email usr,
                 m_email = u_email usr,
                 m_verifyAccountLink =
                   website config @ ''/confirm/guest/''
                   @ (case u_emailConfirmationToken usr of None \<Rightarrow> ''null'' | Some t \<Rightarrow> t)
                   @ ''?email='' @ u_email usr\<rparr>"
      let ?w4 = "?w3\<lparr>outbox := outbox ?w3 @ [?m],
                     oplog := oplog ?w3 @ [Email_send (u_email usr)]\<rparr>"
      have "sendGuestConfirmationEmail_resolve config now args_email req w = (Inr True, ?w4)"
        unfolding sendGuestConfirmationEmail_resolve_def
        using True
        by (simp add: assms await_def r1 r2 s3 Some ret_def Let_def emailLib_send_def logged_def
            del: not_None_eq split del: if_split)
      moreover have "oplog ?w4 = oplog w @
                       [RateLimit_registerCall (ipKey req), RateLimit_registerCall (emailKey ?e),
                        User_findOne_email ?e] @ [Email_send (u_email usr)]"
        by (simp add: l2)
      ultimately show ?thesis by blast
    qed
  qed
qed

theorem rate_limits_before_lookup_witness:
  "remoteUser exampleRequest = None
   \<and> limitReached 30 (ipKey exampleRequest) (confirmGuestEmailPerMinutePerIp exampleConfig)
         worldIpBusy
   \<and> sendGuestConfirmationEmail_resolve exampleConfig 30 '' Ada@Example.org '' exampleRequest
         worldIpBusy
       = (Inl (RateLimitExceeded IP_LIMIT_MSG),
          worldIpBusy\<lparr>oplog := oplog worldIpBusy
                                   @ [RateLimit_registerCall (ipKey exampleRequest)]\<rparr>)
   \<and> \<not> limitReached 30 (ipKey exampleRequest) (confirmGuestEmailPerMinutePerIp exampleConfig)
           worldEmailBusy
   \<and> limitReached 30 (emailKey (toLowerCase (trim '' Ada@Example.org '')))
         (confirmGuestEmailPerMinute exampleConfig) worldEmailBusy
   \<and> (\<exists>w'. sendGuestConfirmationEmail_resolve exampleConfig 30 '' Ada@Example.org ''
               exampleRequest worldEmailBusy
              = (Inl (RateLimitExceeded EMAIL_LIMIT_MSG), w')
            \<and> sameRecords worldEmailBusy w' \<and> outbox w' = outbox worldEmailBusy)
   \<and> \<not> limitReached 30 (ipKey exampleRequest) (confirmGuestEmailPerMinutePerIp exampleConfig)
           exampleWorld
   \<and> \<not> limitReached 30 (emailKey (toLowerCase (trim '' Ada@Example.org '')))
           (confirmGuestEmailPerMinute exampleConfig) exampleWorld
   \<and> (\<exists>r w' rest. sendGuestConfirmationEmail_resolve exampleConfig 30 '' Ada@Example.org ''
                      exampleRequest exampleWorld = (r, w')
            \<and> oplog w' = oplog exampleWorld @
                 [RateLimit_registerCall (ipKey exampleRequest),
                  RateLimit_registerCall (emailKey (toLowerCase (trim '' Ada@Example.org ''))),
                  User_findOne_email (toLowerCase (trim '' Ada@Example.org ''))] @ rest)"
proof -
  have h0: "remoteUser exampleRequest = None" by (simp add: exampleRequest_def)
  have h1: "limitReached 30 (ipKey exampleRequest) (confirmGuestEmailPerMinutePerIp exampleConfig)
              worldIpBusy" by code_simp
  have h2: "\<not> limitReached 30 (ipKey exampleRequest)
                (confirmGuestEmailPerMinutePerIp exampleConfig) worldEmailBusy" by code_simp
  have h3: "limitReached 30 (emailKey (toLowerCase (trim '' Ada@Example.org '')))
              (confirmGuestEmailPerMinute exampleConfig) worldEmailBusy" by code_simp
  have h4: "\<not> limitReached 30 (ipKey exampleRequest)
                (confirmGuestEmailPerMinutePerIp exampleConfig) exampleWorld" by code_simp
  have h5: "\<not> limitReached 30 (emailKey (toLowerCase (trim '' Ada@Example.org '')))
                (confirmGuestEmailPerMinute exampleConfig) exampleWorld" by code_simp
  note inst = rate_limits_before_lookup [OF h0, of 30 exampleConfig _ "'' Ada@Example.org ''"]
  from inst [of worldIpBusy] h1
  have a: "sendGuestConfirmationEmail_resolve exampleConfig 30 '' Ada@Example.org ''
             exampleRequest worldIpBusy
       = (Inl (RateLimitExceeded IP_LIMIT_MSG),
          worldIpBusy\<lparr>oplog := oplog worldIpBusy
                                   @ [RateLimit_registerCall (ipKey exampleRequest)]\<rparr>)"
    by blast
  from inst [of worldEmailBusy] h2 h3
  have b: "\<exists>w'. sendGuestConfirmationEmail_resolve exampleConfig 30 '' Ada@Example.org ''
               exampleRequest worldEmailBusy
              = (Inl (RateLimitExceeded EMAIL_LIMIT_MSG), w')
            \<and> sameRecords worldEmailBusy w' \<and> outbox w' = outbox worldEmailBusy"
    by blast
  from inst [of exampleWorld] h4 h5
  have c: "\<exists>r w' rest. sendGuestConfirmationEmail_resolve exampleConfig 30 '' Ada@Example.org ''
                      exampleRequest exampleWorld = (r, w')
            \<and> oplog w' = oplog exampleWorld @
                 [RateLimit_registerCall (ipKey exampleRequest),
                  RateLimit_registerCall (emailKey (toLowerCase (trim '' Ada@Example.org ''))),
                  User_findOne_email (toLowerCase (trim '' Ada@Example.org ''))] @ rest"
    by blast
  from h0 h1 h2 h3 h4 h5 a b c show ?thesis by blast
qed

subsection \<open>The guest tokens of the mutation\<close>

lemma confirmGuestAccount_resolve_passes_no_tokens:
  "\<not> 30 < length g \<Longrightarrow>
   confirmGuestAccount_resolve gen now tok (Some g) name w
     = confirmGuestAccount gen now tok name None w"
  by (simp add: confirmGuestAccount_resolve_def)

text \<open>
  C1 fails on the code. Ada confirms her account through the mutation and hands in Bob's
  guest token, which belongs to the guest account 2. The mutation succeeds, and
  afterwards account 2 is not deleted, its contribution is still its own, and Bob's token
  is live: only Ada's token is deleted. The library function, called with the same token
  list, deletes account 2, moves the contribution to account 1 and deletes both tokens:
  the resolver checks the length of \<^verbatim>\<open>args.guestTokens\<close> and then does not pass the list.
\<close>

theorem confirm_mutation_ignores_guest_tokens:
  "fst (confirmGuestAccount_resolve exampleSlug 7 ''confirm-ada'' (Some [''token-bob'']) None
          exampleWorld) = Inr adaConfirmed
   \<and> map c_deletedAt (Collectives (snd (confirmGuestAccount_resolve exampleSlug 7 ''confirm-ada''
          (Some [''token-bob'']) None exampleWorld))) = [None, None, None]
   \<and> map gt_deletedAt (GuestTokens (snd (confirmGuestAccount_resolve exampleSlug 7
          ''confirm-ada'' (Some [''token-bob'']) None exampleWorld))) = [Some 7, None]
   \<and> map t_FromCollectiveId (Transactions (snd (confirmGuestAccount_resolve exampleSlug 7
          ''confirm-ada'' (Some [''token-bob'']) None exampleWorld))) = [2]
   \<and> fst (confirmGuestAccount exampleSlug 7 ''confirm-ada'' None (Some [''token-bob''])
          exampleWorld) = Inr adaConfirmed
   \<and> map c_deletedAt (Collectives (snd (confirmGuestAccount exampleSlug 7 ''confirm-ada'' None
          (Some [''token-bob'']) exampleWorld))) = [None, Some 7, None]
   \<and> map gt_deletedAt (GuestTokens (snd (confirmGuestAccount exampleSlug 7 ''confirm-ada'' None
          (Some [''token-bob'']) exampleWorld))) = [Some 7, Some 7]
   \<and> map t_FromCollectiveId (Transactions (snd (confirmGuestAccount exampleSlug 7
          ''confirm-ada'' None (Some [''token-bob'']) exampleWorld))) = [1]"
  by code_simp

end
